theory Spec2Isabelle
  imports Complex_Main "HOL-Library.Multiset"
begin

section \<open>The video export pipeline of openscreen\<close>

text \<open>
  A shallow embedding of the class \<open>VideoExporter\<close> (the export pipeline) and of the
  parts of \<open>VideoFileDecoder\<close> it uses. A JavaScript \<open>number\<close> is an IEEE 754 double. The
  values of the doubles are reals, and the effective duration and the frame count, whose
  exact values the properties below depend on, are computed with every operation rounded
  to double precision as the platform rounds it. The time mapper and the timestamps of the
  frame loop are computed in exact arithmetic: what is proved of them is the order of
  these numbers and the shape of the computation, which rounding does not change.

  JavaScript runs the exporter on one thread: between two \<open>await\<close>s nothing else runs, and
  at an \<open>await\<close> the callbacks of the encoders and a call of \<open>cancel\<close> may run. The
  exporter is therefore a function from its state to its state, and what the platform and
  the user do at each suspension is an argument, the environment. A suspension that is
  never resumed is a result of its own, so that an export whose promise never resolves is
  not taken for one that returns.
\<close>

subsection \<open>Configuration\<close>

record TrimRegion =
  startMs :: real
  endMs :: real

text \<open>
  The fields of \<open>VideoExporterConfig\<close> the pipeline itself reads. \<open>trimRegions\<close> and
  \<open>codec\<close> are optional in the source; \<open>onProgress\<close> records whether a progress
  callback is configured (its calls are logged in the exporter state).
\<close>

record VideoExporterConfig =
  width :: real
  height :: real
  frameRate :: real
  bitrate :: real
  codec :: "string option"
  trimRegions :: "TrimRegion list option"
  onProgress :: bool

text \<open>\<open>this.config.trimRegions || []\<close>\<close>

definition trimsOf :: "VideoExporterConfig \<Rightarrow> TrimRegion list" where
  "trimsOf config = (case trimRegions config of None \<Rightarrow> [] | Some rs \<Rightarrow> rs)"

subsection \<open>Double-precision arithmetic\<close>

text \<open>
  \<open>rnd64\<close> rounds a real to the nearest double, ties to the even significand: a double
  is a multiple of the unit in the last place of its binade, \<open>2 ^ (e - 52)\<close> for a
  magnitude in \<open>[2 ^ e, 2 ^ (e + 1))\<close>, and below \<open>2 ^ -1022\<close> the unit stays
  \<open>2 ^ -1074\<close> (gradual underflow). \<open>binade\<close> finds \<open>e\<close> by halving or doubling the
  magnitude; its first argument bounds the number of steps and is larger than the range of
  exponents. Magnitudes from \<open>2 ^ 1024\<close> on, which overflow to \<open>Infinity\<close>, and \<open>NaN\<close>
  are outside the model: durations, frame rates and times in milliseconds are far from
  them.
\<close>

definition pow2 :: "int \<Rightarrow> real" where
  "pow2 e = (if 0 \<le> e then 2 ^ nat e else 1 / 2 ^ nat (- e))"

fun binade :: "nat \<Rightarrow> real \<Rightarrow> int \<Rightarrow> int" where
  "binade 0 a e = e"
| "binade (Suc fuel) a e =
     (if 2 \<le> a then binade fuel (a / 2) (e + 1)
      else if a < 1 \<and> - 1022 < e then binade fuel (a * 2) (e - 1)
      else e)"

definition roundHalfEven :: "real \<Rightarrow> int" where
  "roundHalfEven m =
     (let f = \<lfloor>m\<rfloor>; r = m - of_int f
      in if r < 1 / 2 then f else if 1 / 2 < r then f + 1 else if even f then f else f + 1)"

definition rnd64 :: "real \<Rightarrow> real" where
  "rnd64 x =
     (if x = 0 then 0
      else (let e = binade 2200 \<bar>x\<bar> 0; ulp = pow2 (e - 52)
            in sgn x * of_int (roundHalfEven (\<bar>x\<bar> / ulp)) * ulp))"

text \<open>
  The operators \<open>+\<close>, \<open>-\<close>, \<open>*\<close> and \<open>/\<close> of JavaScript on doubles: the exact result,
  rounded. (The only divisor below is the constant 1000.)
\<close>

definition fadd :: "real \<Rightarrow> real \<Rightarrow> real" where
  "fadd x y = rnd64 (x + y)"

definition fsub :: "real \<Rightarrow> real \<Rightarrow> real" where
  "fsub x y = rnd64 (x - y)"

definition fmul :: "real \<Rightarrow> real \<Rightarrow> real" where
  "fmul x y = rnd64 (x * y)"

definition fdiv :: "real \<Rightarrow> real \<Rightarrow> real" where
  "fdiv x y = rnd64 (x / y)"

subsection \<open>The effective duration and the time mapper\<close>

text \<open>
  \<open>getEffectiveDuration\<close>: \<open>reduce\<close> is a left fold from 0 over the regions in the order
  they are configured; \<open>totalTrimDuration\<close> is the constant of that name in the source.
\<close>

definition totalTrimDuration :: "VideoExporterConfig \<Rightarrow> real" where
  "totalTrimDuration config =
     foldl (\<lambda>sum region. fadd sum (fdiv (fsub (endMs region) (startMs region)) 1000)) 0
       (trimsOf config)"

definition getEffectiveDuration :: "VideoExporterConfig \<Rightarrow> real \<Rightarrow> real" where
  "getEffectiveDuration config totalDuration = fsub totalDuration (totalTrimDuration config)"

text \<open>
  The loop of \<open>mapEffectiveToSourceTime\<close> over the sorted regions; \<open>break\<close> leaves the
  loop with the running source time.
\<close>

fun walkTrims :: "TrimRegion list \<Rightarrow> real \<Rightarrow> real" where
  "walkTrims [] sourceTimeMs = sourceTimeMs"
| "walkTrims (trim # rest) sourceTimeMs =
     (if sourceTimeMs < startMs trim then sourceTimeMs
      else (let trimDuration = endMs trim - startMs trim
            in walkTrims rest (sourceTimeMs + trimDuration)))"

text \<open>
  \<open>[...trimRegions].sort((a, b) => a.startMs - b.startMs)\<close>: the sort of JavaScript is
  stable, and so is \<open>sort_key\<close>.
\<close>

definition mapEffectiveToSourceTime :: "VideoExporterConfig \<Rightarrow> real \<Rightarrow> real" where
  "mapEffectiveToSourceTime config effectiveTimeMs =
     (let sortedTrims = sort_key startMs (trimsOf config)
      in walkTrims sortedTrims effectiveTimeMs)"

text \<open>\<open>Math.ceil(effectiveDuration * this.config.frameRate)\<close> in \<open>export\<close>.\<close>

definition totalFramesOf :: "VideoExporterConfig \<Rightarrow> real \<Rightarrow> int" where
  "totalFramesOf config duration =
     \<lceil>fmul (getEffectiveDuration config duration) (frameRate config)\<rceil>"

subsection \<open>The time mapper as the specification words it\<close>



definition validTrims :: "TrimRegion list \<Rightarrow> bool" where
  "validTrims trims \<longleftrightarrow> list_all (\<lambda>r. startMs r < endMs r) trims"


text \<open>A configuration used for concrete runs: 1920 x 1080 at 30 frames per second.\<close>

definition config30 :: "TrimRegion list option \<Rightarrow> VideoExporterConfig" where
  "config30 trims =
     \<lparr>width = 1920, height = 1080, frameRate = 30, bitrate = 8000000, codec = None,
      trimRegions = trims, onProgress = True\<rparr>"

subsection \<open>The exporter, its collaborators and their calls\<close>

text \<open>
  The WebCodecs encoders are platform objects. What the exporter reads of them is their
  \<open>state\<close>; a reference that is \<open>null\<close> is \<open>None\<close>.
\<close>

datatype CodecState = Unconfigured | Configured | Closed

datatype HardwareAcceleration = PreferHardware | PreferSoftware

record VideoEncoderConfig =
  cfgCodec :: string
  cfgWidth :: real
  cfgHeight :: real
  cfgBitrate :: real
  cfgFramerate :: real
  hardwareAcceleration :: HardwareAcceleration

record ExportProgress =
  currentFrame :: nat
  totalFrames :: int
  percentage :: real
  estimatedTimeRemaining :: real

text \<open>
  \<open>meta?.decoderConfig\<close> of an encoded chunk: whether the metadata is there, and the
  description bytes and colour space it may carry.
\<close>

record ChunkMeta =
  hasDecoderConfig :: bool
  description :: "string option"
  colorSpace :: "string option"

text \<open>
  Modelled from the spec: the container writer \<open>VideoMuxer\<close>, whose source file is not
  among the sources. The specification gives its boundary: \<open>initialize(config, hasAudio)\<close>,
  \<open>addVideoChunk(chunk, metadata)\<close>, \<open>addAudioChunk(chunk, metadata)\<close> and
  \<open>finalize() -> bytes\<close>, an opaque sink. Here it counts the chunks it has taken, and
  whether one of its calls fails is given by the environment. The finished container is
  the \<open>Blob\<close>.
\<close>

record VideoMuxer =
  muxHasAudio :: bool
  videoChunks :: nat
  audioChunks :: nat

record Blob =
  blobVideoChunks :: nat
  blobAudioChunks :: nat

record VideoFileDecoder =
  videoElement :: bool
  audioStream :: bool

record DecodedVideoInfo =
  videoWidth :: real
  videoHeight :: real
  duration :: real
  hasAudio :: bool

text \<open>How a promise settles.\<close>

datatype Settled = Fulfilled | Rejected string

text \<open>
  The calls the exporter makes on its collaborators, in the order it makes them. The
  trace is not a field of the source: it records the calls so that they can be counted.
\<close>

datatype Call =
    IsConfigSupported VideoEncoderConfig
  | Configure VideoEncoderConfig
  | Encode real bool
  | Flush
  | Close
  | NewAudioEncoder
  | AudioIsConfigSupported
  | AudioConfigure
  | AudioFlush
  | AudioClose
  | RenderFrame real
  | AddVideoChunk bool
  | AddAudioChunk bool
  | OnProgress ExportProgress
  | ProcessorDisconnect
  | SourceDisconnect
  | ContextClose
  | DecoderDestroy
  | RendererDestroy
  | ExtractAudio
  | Finalize
  | ConsoleWarn string
  | ConsoleError string

text \<open>
  Modelled from the spec: the compositor \<open>FrameRenderer\<close>, whose source file is not among
  the sources either. The specification gives \<open>initialize\<close>, \<open>renderFrame\<close>, the output
  surface and \<open>destroy\<close>; the exporter only holds a reference to it, so a live renderer
  is \<open>Some ()\<close>, and whether \<open>initialize\<close> or \<open>renderFrame\<close> fails is given by the
  environment. The audio context, source and processor of the Web Audio graph are held in
  the same way.

  The fields of \<open>VideoExporter\<close>. \<open>localDescription\<close> is the variable
  \<open>videoDescription\<close> that the output callback of \<open>initializeEncoder\<close> closes over.
  \<open>trace\<close> and \<open>queuePeak\<close> are not in the source: the calls made so far, and the highest
  value \<open>encodeQueue\<close> has had after an increment.
\<close>

record VideoExporter =
  decoder :: "VideoFileDecoder option"
  renderer :: "unit option"
  encoder :: "CodecState option"
  audioEncoder :: "CodecState option"
  audioContext :: "unit option"
  audioSource :: "unit option"
  audioProcessor :: "unit option"
  muxer :: "VideoMuxer option"
  cancelled :: bool
  encodeQueue :: int
  muxingPromises :: "Settled list"
  chunkCount :: nat
  audioChunkCount :: nat
  videoDescription :: "string option"
  videoColorSpace :: "string option"
  localDescription :: "string option"
  trace :: "Call list"
  queuePeak :: int

definition MAX_ENCODE_QUEUE :: int where
  "MAX_ENCODE_QUEUE = 120"

definition call :: "Call \<Rightarrow> VideoExporter \<Rightarrow> VideoExporter" where
  "call c s = s\<lparr>trace := trace s @ [c]\<rparr>"

text \<open>The state of a freshly constructed exporter.\<close>

definition newExporter :: VideoExporter where
  "newExporter =
     \<lparr>decoder = None, renderer = None, encoder = None, audioEncoder = None,
      audioContext = None, audioSource = None, audioProcessor = None, muxer = None,
      cancelled = False, encodeQueue = 0, muxingPromises = [], chunkCount = 0,
      audioChunkCount = 0, videoDescription = None, videoColorSpace = None,
      localDescription = None, trace = [], queuePeak = 0\<rparr>"

subsection \<open>\<open>cleanup\<close> and \<open>cancel\<close>\<close>

text \<open>
  Each release step of \<open>cleanup\<close> runs inside its own \<open>try\<close>: whether the call on the
  collaborator throws or not, the reference is set to \<open>null\<close> afterwards. An encoder is
  closed only when its state is \<open>configured\<close>; the muxer is only dropped.
\<close>

definition releaseAudioProcessor :: "VideoExporter \<Rightarrow> VideoExporter" where
  "releaseAudioProcessor s =
     (case audioProcessor s of
        None \<Rightarrow> s
      | Some _ \<Rightarrow> (call ProcessorDisconnect s)\<lparr>audioProcessor := None\<rparr>)"

definition releaseAudioSource :: "VideoExporter \<Rightarrow> VideoExporter" where
  "releaseAudioSource s =
     (case audioSource s of
        None \<Rightarrow> s
      | Some _ \<Rightarrow> (call SourceDisconnect s)\<lparr>audioSource := None\<rparr>)"

definition releaseAudioContext :: "VideoExporter \<Rightarrow> VideoExporter" where
  "releaseAudioContext s =
     (case audioContext s of
        None \<Rightarrow> s
      | Some _ \<Rightarrow> (call ContextClose s)\<lparr>audioContext := None\<rparr>)"

definition releaseAudioEncoder :: "VideoExporter \<Rightarrow> VideoExporter" where
  "releaseAudioEncoder s =
     (case audioEncoder s of
        None \<Rightarrow> s
      | Some st \<Rightarrow> (if st = Configured then call AudioClose s else s)\<lparr>audioEncoder := None\<rparr>)"

definition releaseEncoder :: "VideoExporter \<Rightarrow> VideoExporter" where
  "releaseEncoder s =
     (case encoder s of
        None \<Rightarrow> s
      | Some st \<Rightarrow> (if st = Configured then call Close s else s)\<lparr>encoder := None\<rparr>)"

definition releaseDecoder :: "VideoExporter \<Rightarrow> VideoExporter" where
  "releaseDecoder s =
     (case decoder s of
        None \<Rightarrow> s
      | Some _ \<Rightarrow> (call DecoderDestroy s)\<lparr>decoder := None\<rparr>)"

definition releaseRenderer :: "VideoExporter \<Rightarrow> VideoExporter" where
  "releaseRenderer s =
     (case renderer s of
        None \<Rightarrow> s
      | Some _ \<Rightarrow> (call RendererDestroy s)\<lparr>renderer := None\<rparr>)"

definition cleanup :: "VideoExporter \<Rightarrow> VideoExporter" where
  "cleanup s0 =
    (let s1 = releaseAudioProcessor s0;
         s2 = releaseAudioSource s1;
         s3 = releaseAudioContext s2;
         s4 = releaseAudioEncoder s3;
         s5 = releaseEncoder s4;
         s6 = releaseDecoder s5;
         s7 = releaseRenderer s6
     in s7\<lparr>muxer := None, encodeQueue := 0, muxingPromises := [], chunkCount := 0,
           audioChunkCount := 0, videoDescription := None, videoColorSpace := None\<rparr>)"

text \<open>
  The calls \<open>cleanup\<close> makes from a state: one for each live reference, the two
  \<open>close\<close> calls only for a configured encoder.
\<close>

definition releaseCalls :: "VideoExporter \<Rightarrow> Call list" where
  "releaseCalls s =
     (case audioProcessor s of None \<Rightarrow> [] | Some _ \<Rightarrow> [ProcessorDisconnect])
     @ (case audioSource s of None \<Rightarrow> [] | Some _ \<Rightarrow> [SourceDisconnect])
     @ (case audioContext s of None \<Rightarrow> [] | Some _ \<Rightarrow> [ContextClose])
     @ (if audioEncoder s = Some Configured then [AudioClose] else [])
     @ (if encoder s = Some Configured then [Close] else [])
     @ (case decoder s of None \<Rightarrow> [] | Some _ \<Rightarrow> [DecoderDestroy])
     @ (case renderer s of None \<Rightarrow> [] | Some _ \<Rightarrow> [RendererDestroy])"

definition cancel :: "VideoExporter \<Rightarrow> VideoExporter" where
  "cancel s = cleanup (s\<lparr>cancelled := True\<rparr>)"

subsection \<open>The encoder callbacks\<close>

text \<open>
  The asynchronous write task of the video output callback. The call on the muxer is made
  inside \<open>try\<close>; a muxer that is \<open>null\<close> (a \<open>TypeError\<close>) and a write that rejects
  (\<open>writeFails\<close> carries the error) both end in the \<open>catch\<close>, which logs. The task's promise
  is the second component.
\<close>

definition videoMuxingTask :: "string option \<Rightarrow> VideoExporter \<Rightarrow> VideoExporter \<times> Settled" where
  "videoMuxingTask writeFails s =
     (case muxer s of
        None \<Rightarrow> (call (ConsoleError ''Muxing error'') s, Fulfilled)
      | Some m \<Rightarrow>
          (case writeFails of
             None \<Rightarrow> ((call (AddVideoChunk True) s)
                         \<lparr>muxer := Some (m\<lparr>videoChunks := videoChunks m + 1\<rparr>)\<rparr>, Fulfilled)
           | Some e \<Rightarrow> (call (ConsoleError ''Muxing error'') (call (AddVideoChunk False) s),
                        Fulfilled)))"

text \<open>
  The \<open>output\<close> callback given to \<open>new VideoEncoder\<close>. Which metadata goes to the muxer
  with the first chunk does not change what is counted here, so both branches of the
  source's \<open>if (isFirstChunk && this.videoDescription)\<close> are the one write.
\<close>

definition videoOutput :: "ChunkMeta \<Rightarrow> string option \<Rightarrow> VideoExporter \<Rightarrow> VideoExporter" where
  "videoOutput meta writeFails s0 =
    (let s1 = (if hasDecoderConfig meta \<and> description meta \<noteq> None \<and> localDescription s0 = None
               then s0\<lparr>localDescription := description meta,
                       videoDescription := description meta\<rparr>
               else s0);
         s2 = (if hasDecoderConfig meta \<and> colorSpace meta \<noteq> None \<and> videoColorSpace s1 = None
               then s1\<lparr>videoColorSpace := colorSpace meta\<rparr> else s1);
         s3 = s2\<lparr>chunkCount := chunkCount s2 + 1\<rparr>;
         (s4, muxingPromise) = videoMuxingTask writeFails s3;
         s5 = s4\<lparr>muxingPromises := muxingPromises s4 @ [muxingPromise]\<rparr>
     in s5\<lparr>encodeQueue := encodeQueue s5 - 1\<rparr>)"

definition audioMuxingTask :: "string option \<Rightarrow> VideoExporter \<Rightarrow> VideoExporter \<times> Settled" where
  "audioMuxingTask writeFails s =
     (case muxer s of
        None \<Rightarrow> (call (ConsoleError ''[VideoExporter] Audio muxing error'') s, Fulfilled)
      | Some m \<Rightarrow>
          (case writeFails of
             None \<Rightarrow> ((call (AddAudioChunk True) s)
                         \<lparr>muxer := Some (m\<lparr>audioChunks := audioChunks m + 1\<rparr>)\<rparr>, Fulfilled)
           | Some e \<Rightarrow> (call (ConsoleError ''[VideoExporter] Audio muxing error'')
                          (call (AddAudioChunk False) s), Fulfilled)))"

definition audioOutput :: "string option \<Rightarrow> VideoExporter \<Rightarrow> VideoExporter" where
  "audioOutput writeFails s0 =
    (let s1 = s0\<lparr>audioChunkCount := audioChunkCount s0 + 1\<rparr>;
         (s2, muxingPromise) = audioMuxingTask writeFails s1
     in s2\<lparr>muxingPromises := muxingPromises s2 @ [muxingPromise]\<rparr>)"

text \<open>
  What can happen while the exporter is suspended at an \<open>await\<close>: the video or audio
  encoder delivers a chunk, an encoder reports an error, or the user calls \<open>cancel\<close>.
  WebCodecs invokes an encoder's error callback from its close algorithm, after the
  encoder's state has become \<open>closed\<close>; the video error callback then sets \<open>cancelled\<close>,
  the audio one only logs.
\<close>

datatype Event =
    VideoChunk ChunkMeta "string option"
  | AudioChunk "string option"
  | EncoderError
  | AudioEncoderError
  | CancelCalled

fun applyEvent :: "Event \<Rightarrow> VideoExporter \<Rightarrow> VideoExporter" where
  "applyEvent (VideoChunk meta writeFails) s = videoOutput meta writeFails s"
| "applyEvent (AudioChunk writeFails) s = audioOutput writeFails s"
| "applyEvent EncoderError s =
     (call (ConsoleError ''[VideoExporter] Encoder error'') s)
       \<lparr>encoder := map_option (\<lambda>_. Closed) (encoder s), cancelled := True\<rparr>"
| "applyEvent AudioEncoderError s =
     (call (ConsoleError ''[VideoExporter] Audio encoder error'') s)
       \<lparr>audioEncoder := map_option (\<lambda>_. Closed) (audioEncoder s)\<rparr>"
| "applyEvent CancelCalled s = cancel s"

fun applyEvents :: "Event list \<Rightarrow> VideoExporter \<Rightarrow> VideoExporter" where
  "applyEvents [] s = s"
| "applyEvents (e # es) s = applyEvents es (applyEvent e s)"

subsection \<open>The environment of one export\<close>

text \<open>
  How a call on a collaborator, or a part of the exporter, ends: it returns, it throws
  (or its promise rejects) with a message, or its promise never settles.
\<close>

datatype 'a Completion = Normal 'a | Throws string | Never

text \<open>
  Sequencing inside the \<open>try\<close> block: the next part runs only when the one before has
  returned; a throw or a promise that never settles ends the block there.
\<close>

definition andThen ::
  "'a Completion \<times> VideoExporter \<Rightarrow> ('a \<Rightarrow> VideoExporter \<Rightarrow> 'b Completion \<times> VideoExporter)
     \<Rightarrow> 'b Completion \<times> VideoExporter" where
  "andThen m f =
     (case m of
        (Normal a, s) \<Rightarrow> f a s
      | (Throws e, s) \<Rightarrow> (Throws e, s)
      | (Never, s) \<Rightarrow> (Never, s))"

text \<open>
  What the collaborators do during the processing of one frame: the events that arrive
  while the loop awaits the seek (or the first frame), whether \<open>renderFrame\<close> rejects, the
  events that arrive while it renders, the events of each zero-delay sleep of the
  back-pressure wait. \<open>encode\<close> is called on a configured encoder with a frame that has
  just been created, where WebCodecs does not throw.
\<close>

record FrameEnv =
  seekEvents :: "Event list"
  renderThrows :: "string option"
  renderEvents :: "Event list"
  pollTicks :: "Event list list"

record Media =
  mediaWidth :: real
  mediaHeight :: real
  mediaDuration :: real
  audioTracks :: nat

record Env =
  media :: "Media option"
  captureStreamThrows :: bool
  rendererInitThrows :: "string option"
  hardwareSupported :: bool
  softwareSupported :: bool
  audioContextThrows :: "string option"
  audioSupported :: bool
  muxerInitThrows :: "string option"
  playRejects :: "string option"
  audioPassEvents :: "Event list"
  frames :: "nat \<Rightarrow> FrameEnv"
  flushThrows :: "string option"
  flushEvents :: "Event list"
  audioFlushThrows :: "string option"
  audioFlushEvents :: "Event list"
  finalizeThrows :: "string option"

record ExportResult =
  success :: bool
  blob :: "Blob option"
  error :: "string option"

subsection \<open>\<open>VideoFileDecoder\<close>\<close>

text \<open>
  \<open>loadVideo\<close> resolves on \<open>loadedmetadata\<close> and rejects on \<open>error\<close> (no media). The
  decoder keeps the captured stream only when it has audio tracks.
\<close>

definition loadVideo :: "Env \<Rightarrow> DecodedVideoInfo Completion \<times> VideoFileDecoder" where
  "loadVideo env =
     (case media env of
        None \<Rightarrow> (Throws ''Failed to load video'', \<lparr>videoElement = True, audioStream = False\<rparr>)
      | Some m \<Rightarrow>
          (let hasAudio = (\<not> captureStreamThrows env \<and> 0 < audioTracks m)
           in (Normal \<lparr>videoWidth = mediaWidth m, videoHeight = mediaHeight m,
                       duration = mediaDuration m, hasAudio = hasAudio\<rparr>,
               \<lparr>videoElement = True, audioStream = hasAudio\<rparr>)))"

text \<open>\<open>getAudioStream\<close>: whether it returns a stream rather than \<open>null\<close>.\<close>

definition getAudioStream :: "Env \<Rightarrow> VideoFileDecoder \<Rightarrow> bool" where
  "getAudioStream env d =
     (if \<not> videoElement d then False
      else if captureStreamThrows env then False
      else (case media env of None \<Rightarrow> False | Some m \<Rightarrow> 0 < audioTracks m))"

subsection \<open>Encoder initialisation\<close>

definition encoderConfigOf :: "VideoExporterConfig \<Rightarrow> VideoEncoderConfig" where
  "encoderConfigOf config =
     \<lparr>cfgCodec = (case codec config of
                    None \<Rightarrow> ''avc1.640033''
                  | Some c \<Rightarrow> (if c = [] then ''avc1.640033'' else c)),
      cfgWidth = width config, cfgHeight = height config, cfgBitrate = bitrate config,
      cfgFramerate = frameRate config, hardwareAcceleration = PreferHardware\<rparr>"

definition initializeEncoder ::
  "Env \<Rightarrow> VideoExporterConfig \<Rightarrow> VideoExporter \<Rightarrow> unit Completion \<times> VideoExporter" where
  "initializeEncoder env config s0 =
    (let s1 = s0\<lparr>encodeQueue := 0, muxingPromises := [], chunkCount := 0,
                 localDescription := None, encoder := Some Unconfigured\<rparr>;
         encoderConfig = encoderConfigOf config;
         s2 = call (IsConfigSupported encoderConfig) s1
     in if hardwareSupported env
        then (Normal (), (call (Configure encoderConfig) s2)\<lparr>encoder := Some Configured\<rparr>)
        else (let encoderConfig' = encoderConfig\<lparr>hardwareAcceleration := PreferSoftware\<rparr>;
                  s3 = call (IsConfigSupported encoderConfig') s2
              in if \<not> softwareSupported env
                 then (Throws ''Video encoding not supported on this system'', s3)
                 else (Normal (),
                       (call (Configure encoderConfig') s3)\<lparr>encoder := Some Configured\<rparr>)))"

text \<open>
  \<open>initializeAudioEncoder\<close> never throws: it returns early without a stream or when the
  Opus configuration is unsupported, and its \<open>try\<close> catches everything else. The
  \<open>AudioEncoder\<close> object is constructed before the support check, but it is stored in
  \<open>this.audioEncoder\<close> only after it has been configured.
\<close>

definition initializeAudioEncoder :: "Env \<Rightarrow> VideoExporter \<Rightarrow> VideoExporter" where
  "initializeAudioEncoder env s0 =
    (if \<not> (case decoder s0 of None \<Rightarrow> False | Some d \<Rightarrow> getAudioStream env d)
     then call (ConsoleWarn ''[VideoExporter] No audio stream available'') s0
     else (case audioContextThrows env of
        Some e \<Rightarrow> call (ConsoleError ''[VideoExporter] Failed to initialize audio encoder'') s0
      | None \<Rightarrow>
         (let s1 = s0\<lparr>audioContext := Some (), audioSource := Some ()\<rparr>;
              s2 = call NewAudioEncoder s1;
              s3 = call AudioIsConfigSupported s2
          in if \<not> audioSupported env
             then call (ConsoleWarn ''[VideoExporter] Opus audio codec not supported'') s3
             else (call AudioConfigure s3)
                    \<lparr>audioEncoder := Some Configured, audioProcessor := Some ()\<rparr>)))"

text \<open>
  \<open>extractAudio\<close> plays the source while the audio graph captures it; the playback is one
  suspension during which events arrive. Without trim regions a rejected \<open>play()\<close> rejects
  the pass; with trim regions it is swallowed.
\<close>

definition extractAudio ::
  "Env \<Rightarrow> VideoExporterConfig \<Rightarrow> VideoExporter \<Rightarrow> unit Completion \<times> VideoExporter" where
  "extractAudio env config s =
    (if audioEncoder s = None \<or> audioContext s = None \<or> audioSource s = None
     then (Normal (), s)
     else (let s1 = call ExtractAudio s
           in if trimsOf config = []
              then (case playRejects env of
                      Some e \<Rightarrow> (Throws e, s1)
                    | None \<Rightarrow> (Normal (), applyEvents (audioPassEvents env) s1))
              else (Normal (), applyEvents (audioPassEvents env) s1)))"

subsection \<open>The frame loop\<close>

text \<open>
  The back-pressure wait: while the queue is full and the export is not cancelled, sleep
  once more. When no further event ever arrives and the loop is still blocked, it polls
  forever.
\<close>

fun waitForQueue :: "Event list list \<Rightarrow> VideoExporter \<Rightarrow> unit Completion \<times> VideoExporter" where
  "waitForQueue [] s =
     (if MAX_ENCODE_QUEUE \<le> encodeQueue s \<and> \<not> cancelled s then (Never, s) else (Normal (), s))"
| "waitForQueue (tick # ticks) s =
     (if MAX_ENCODE_QUEUE \<le> encodeQueue s \<and> \<not> cancelled s
      then waitForQueue ticks (applyEvents tick s) else (Normal (), s))"

definition progressAt :: "int \<Rightarrow> nat \<Rightarrow> ExportProgress" where
  "progressAt frameTotal frameIndex =
     \<lparr>currentFrame = frameIndex, totalFrames = frameTotal,
      percentage = (real frameIndex / real_of_int frameTotal) * 100,
      estimatedTimeRemaining = 0\<rparr>"

text \<open>The end of an iteration: \<open>frameIndex++\<close> and the progress update.\<close>

definition reportProgress :: "VideoExporterConfig \<Rightarrow> int \<Rightarrow> nat \<Rightarrow> VideoExporter \<Rightarrow> VideoExporter" where
  "reportProgress config frameTotal i s =
     (let frameIndex = i + 1
      in if onProgress config then call (OnProgress (progressAt frameTotal frameIndex)) s else s)"

text \<open>
  One iteration of the loop for frame \<open>i\<close>. \<open>this.renderer!\<close> is read twice, after each
  suspension; a \<open>null\<close> there is a \<open>TypeError\<close>. The loop awaits the seek only when one
  is needed (or the first frame is awaited); otherwise \<open>seekEvents\<close> is empty. With a frame
  rate of 0 the divisions are never reached: \<open>totalFrames\<close> is then 0 and no iteration
  runs.
\<close>

definition frameStep ::
  "VideoExporterConfig \<Rightarrow> int \<Rightarrow> FrameEnv \<Rightarrow> nat \<Rightarrow> VideoExporter
     \<Rightarrow> unit Completion \<times> VideoExporter" where
  "frameStep config frameTotal fe i s0 =
    (let frameDuration = 1000000 / frameRate config;
         timeStep = 1 / frameRate config;
         timestamp = real i * frameDuration;
         effectiveTimeMs = (real i * timeStep) * 1000;
         sourceTimeMs = mapEffectiveToSourceTime config effectiveTimeMs;
         s1 = applyEvents (seekEvents fe) s0;
         sourceTimestamp = sourceTimeMs * 1000
     in if renderer s1 = None
        then (Throws ''Cannot read properties of null (reading 'renderFrame')'', s1)
        else (let s2 = call (RenderFrame sourceTimestamp) s1
          in case renderThrows fe of
               Some e \<Rightarrow> (Throws e, s2)
             | None \<Rightarrow>
                (let s3 = applyEvents (renderEvents fe) s2
                 in if renderer s3 = None
                    then (Throws ''Cannot read properties of null (reading 'getCanvas')'', s3)
                    else (case waitForQueue (pollTicks fe) s3 of
                            (Never, s4) \<Rightarrow> (Never, s4)
                          | (Throws e, s4) \<Rightarrow> (Throws e, s4)
                          | (Normal _, s4) \<Rightarrow>
                             (if encoder s4 = Some Configured
                              then (let s5 = s4\<lparr>encodeQueue := encodeQueue s4 + 1\<rparr>;
                                        s6 = s5\<lparr>queuePeak := max (queuePeak s5) (encodeQueue s5)\<rparr>;
                                        s7 = call (Encode timestamp (i mod 150 = 0)) s6
                                    in (Normal (), reportProgress config frameTotal i s7))
                              else (Normal (),
                                    reportProgress config frameTotal i
                                      (call (ConsoleWarn ''Encoder not ready!'') s4)))))))"

function frameLoop ::
  "Env \<Rightarrow> VideoExporterConfig \<Rightarrow> int \<Rightarrow> nat \<Rightarrow> VideoExporter
     \<Rightarrow> unit Completion \<times> VideoExporter \<times> nat" where
  "frameLoop env config frameTotal frameIndex s =
     (if int frameIndex < frameTotal \<and> \<not> cancelled s
      then (case frameStep config frameTotal (frames env frameIndex) frameIndex s of
              (Normal _, s') \<Rightarrow> frameLoop env config frameTotal (frameIndex + 1) s'
            | (Throws e, s') \<Rightarrow> (Throws e, s', frameIndex)
            | (Never, s') \<Rightarrow> (Never, s', frameIndex))
      else (Normal (), s, frameIndex))"
  by pat_completeness auto
termination
  by (relation "measure (\<lambda>(env, config, frameTotal, frameIndex, s). nat (frameTotal - int frameIndex))") auto

subsection \<open>\<open>export\<close>\<close>

text \<open>
  The initialisation part of \<open>export\<close>, up to the check of the video element. Events are
  taken to arrive only from the audio pass on.
\<close>

definition initialize ::
  "Env \<Rightarrow> VideoExporterConfig \<Rightarrow> VideoExporter \<Rightarrow> DecodedVideoInfo Completion \<times> VideoExporter" where
  "initialize env config s0 =
    (case loadVideo env of
       (Throws e, d) \<Rightarrow> (Throws e, s0\<lparr>decoder := Some d\<rparr>)
     | (Never, d) \<Rightarrow> (Never, s0\<lparr>decoder := Some d\<rparr>)
     | (Normal videoInfo, d) \<Rightarrow>
        (let s1 = s0\<lparr>decoder := Some d, renderer := Some ()\<rparr>
         in case rendererInitThrows env of
              Some e \<Rightarrow> (Throws e, s1)
            | None \<Rightarrow>
               (case initializeEncoder env config s1 of
                  (Throws e, s2) \<Rightarrow> (Throws e, s2)
                | (Never, s2) \<Rightarrow> (Never, s2)
                | (Normal _, s2) \<Rightarrow>
                   (let s3 = (if hasAudio videoInfo then initializeAudioEncoder env s2 else s2);
                        s4 = s3\<lparr>muxer := Some \<lparr>muxHasAudio = hasAudio videoInfo,
                                                videoChunks = 0, audioChunks = 0\<rparr>\<rparr>
                    in case muxerInitThrows env of
                         Some e \<Rightarrow> (Throws e, s4)
                       | None \<Rightarrow>
                          (case decoder s4 of
                             None \<Rightarrow> (Throws ''Cannot read properties of null (reading 'getVideoElement')'', s4)
                           | Some d' \<Rightarrow>
                              (if \<not> videoElement d'
                               then (Throws ''Video element not available'', s4)
                               else (Normal videoInfo, s4)))))))"

text \<open>\<open>Promise.all\<close> rejects with the first rejection among the promises.\<close>

fun promiseAll :: "Settled list \<Rightarrow> unit Completion" where
  "promiseAll [] = Normal ()"
| "promiseAll (Fulfilled # ps) = promiseAll ps"
| "promiseAll (Rejected e # ps) = Throws e"

text \<open>After the loop: the cancellation check, the two flushes, the join and \<open>finalize\<close>.\<close>

definition flushEncoder :: "Env \<Rightarrow> VideoExporter \<Rightarrow> unit Completion \<times> VideoExporter" where
  "flushEncoder env s =
     (if encoder s = Some Configured
      then (case flushThrows env of
              Some e \<Rightarrow> (Throws e, call Flush s)
            | None \<Rightarrow> (Normal (), applyEvents (flushEvents env) (call Flush s)))
      else (Normal (), s))"

definition flushAudioEncoder :: "Env \<Rightarrow> VideoExporter \<Rightarrow> unit Completion \<times> VideoExporter" where
  "flushAudioEncoder env s =
     (if audioEncoder s = Some Configured
      then (case audioFlushThrows env of
              Some e \<Rightarrow> (Throws e, call AudioFlush s)
            | None \<Rightarrow> (Normal (), applyEvents (audioFlushEvents env) (call AudioFlush s)))
      else (Normal (), s))"

definition finalizeMuxer :: "Env \<Rightarrow> VideoExporter \<Rightarrow> ExportResult Completion \<times> VideoExporter" where
  "finalizeMuxer env s =
     (case muxer s of
        None \<Rightarrow> (Throws ''Cannot read properties of null (reading 'finalize')'', s)
      | Some m \<Rightarrow>
          (case finalizeThrows env of
             Some e \<Rightarrow> (Throws e, call Finalize s)
           | None \<Rightarrow>
              (Normal \<lparr>success = True,
                       blob = Some \<lparr>blobVideoChunks = videoChunks m,
                                    blobAudioChunks = audioChunks m\<rparr>,
                       error = None\<rparr>,
               call Finalize s)))"

definition finish :: "Env \<Rightarrow> VideoExporter \<Rightarrow> ExportResult Completion \<times> VideoExporter" where
  "finish env s0 =
    (if cancelled s0
     then (Normal \<lparr>success = False, blob = None, error = Some ''Export cancelled''\<rparr>, s0)
     else andThen (flushEncoder env s0) (\<lambda>_ s1.
          andThen (flushAudioEncoder env s1) (\<lambda>_ s2.
          andThen (promiseAll (muxingPromises s2), s2) (\<lambda>_ s3.
          finalizeMuxer env s3))))"

text \<open>The body of the \<open>try\<close> block of \<open>export\<close>.\<close>

definition exportBody ::
  "Env \<Rightarrow> VideoExporterConfig \<Rightarrow> VideoExporter \<Rightarrow> ExportResult Completion \<times> VideoExporter" where
  "exportBody env config s0 =
    (let s1 = (cleanup s0)\<lparr>cancelled := False\<rparr>
     in andThen (initialize env config s1) (\<lambda>videoInfo s2.
        andThen (if hasAudio videoInfo \<and> audioEncoder s2 \<noteq> None \<and> audioContext s2 \<noteq> None
                 then extractAudio env config s2 else (Normal (), s2)) (\<lambda>_ s3.
        (let frameTotal = totalFramesOf config (duration videoInfo)
         in case frameLoop env config frameTotal 0 s3 of
              (c, s4, frameIndex) \<Rightarrow> andThen (c, s4) (\<lambda>_ s5. finish env s5)))))"

text \<open>
  \<open>export\<close>: the \<open>catch\<close> turns a throw into a failure result, \<open>finally\<close> runs \<open>cleanup\<close>.
  \<open>None\<close> is an export whose promise never resolves.
\<close>

definition export ::
  "Env \<Rightarrow> VideoExporterConfig \<Rightarrow> VideoExporter \<Rightarrow> ExportResult option \<times> VideoExporter" where
  "export env config s0 =
     (case exportBody env config s0 of
        (Normal r, s) \<Rightarrow> (Some r, cleanup s)
      | (Throws e, s) \<Rightarrow> (Some \<lparr>success = False, blob = None, error = Some e\<rparr>, cleanup s)
      | (Never, s) \<Rightarrow> (None, s))"

subsection \<open>Reading the trace\<close>

fun progressCalls :: "Call list \<Rightarrow> ExportProgress list" where
  "progressCalls [] = []"
| "progressCalls (OnProgress p # cs) = p # progressCalls cs"
| "progressCalls (c # cs) = progressCalls cs"

fun encodeCalls :: "Call list \<Rightarrow> (real \<times> bool) list" where
  "encodeCalls [] = []"
| "encodeCalls (Encode timestamp keyFrame # cs) = (timestamp, keyFrame) # encodeCalls cs"
| "encodeCalls (c # cs) = encodeCalls cs"

fun configureCalls :: "Call list \<Rightarrow> VideoEncoderConfig list" where
  "configureCalls [] = []"
| "configureCalls (Configure c # cs) = c # configureCalls cs"
| "configureCalls (c # cs) = configureCalls cs"

fun supportQueries :: "Call list \<Rightarrow> VideoEncoderConfig list" where
  "supportQueries [] = []"
| "supportQueries (IsConfigSupported c # cs) = c # supportQueries cs"
| "supportQueries (c # cs) = supportQueries cs"

text \<open>
  The bound on the queue as an invariant of the exporter state: the counter and its peak
  are at most the bound, and once the export is cancelled the encoder is no longer
  configured (it is closed, or the reference is gone).
\<close>

definition queueBounded :: "VideoExporter \<Rightarrow> bool" where
  "queueBounded s \<longleftrightarrow>
     encodeQueue s \<le> MAX_ENCODE_QUEUE \<and> queuePeak s \<le> MAX_ENCODE_QUEUE
     \<and> (cancelled s \<longrightarrow> encoder s \<noteq> Some Configured)"

subsection \<open>Concrete environments\<close>

text \<open>A frame during which nothing arrives, and an export during which nothing goes wrong.\<close>

definition calmFrame :: FrameEnv where
  "calmFrame = \<lparr>seekEvents = [], renderThrows = None, renderEvents = [], pollTicks = []\<rparr>"

text \<open>The join of the write tasks would succeed: none of the promises is rejected.\<close>

definition joined :: "VideoExporter \<Rightarrow> bool" where
  "joined s \<longleftrightarrow> promiseAll (muxingPromises s) = Normal ()"

text \<open>
  An environment in which the video path is not disturbed: the source loads, the renderer
  and the muxer initialise, some video encoder configuration is supported, nothing arrives
  and nothing fails while the frames are processed, and the flush delivers video chunks
  only (whose writes may fail). \<open>videoReady\<close> is the exporter state of a video-only export
  on its way.
\<close>

fun isVideoChunk :: "Event \<Rightarrow> bool" where
  "isVideoChunk (VideoChunk meta writeFails) = True"
| "isVideoChunk e = False"

definition undisturbed :: "Env \<Rightarrow> bool" where
  "undisturbed env \<longleftrightarrow>
     media env \<noteq> None \<and> rendererInitThrows env = None
     \<and> (hardwareSupported env \<or> softwareSupported env)
     \<and> muxerInitThrows env = None
     \<and> (\<forall>i. frames env i = calmFrame)
     \<and> flushThrows env = None \<and> list_all isVideoChunk (flushEvents env)
     \<and> finalizeThrows env = None"

definition videoReady :: "VideoExporter \<Rightarrow> bool" where
  "videoReady s \<longleftrightarrow>
     renderer s \<noteq> None \<and> encoder s = Some Configured \<and> \<not> cancelled s
     \<and> muxer s \<noteq> None \<and> audioEncoder s = None \<and> joined s"

definition plainMeta :: ChunkMeta where
  "plainMeta = \<lparr>hasDecoderConfig = False, description = None, colorSpace = None\<rparr>"

definition calmEnv :: "real \<Rightarrow> Env" where
  "calmEnv seconds =
     \<lparr>media = Some \<lparr>mediaWidth = 1920, mediaHeight = 1080, mediaDuration = seconds,
                     audioTracks = 0\<rparr>,
      captureStreamThrows = False, rendererInitThrows = None,
      hardwareSupported = True, softwareSupported = True,
      audioContextThrows = None, audioSupported = True, muxerInitThrows = None,
      playRejects = None, audioPassEvents = [], frames = (\<lambda>i. calmFrame),
      flushThrows = None, flushEvents = [], audioFlushThrows = None, audioFlushEvents = [],
      finalizeThrows = None\<rparr>"

text \<open>An exporter in the middle of an export, with \<open>n\<close> frames in flight.\<close>

definition busyExporter :: "int \<Rightarrow> VideoExporter" where
  "busyExporter n =
     newExporter\<lparr>decoder := Some \<lparr>videoElement = True, audioStream = False\<rparr>,
                 renderer := Some (), encoder := Some Configured,
                 muxer := Some \<lparr>muxHasAudio = False, videoChunks = 0, audioChunks = 0\<rparr>,
                 encodeQueue := n, queuePeak := n\<rparr>"

text \<open>An exporter with every collaborator alive and three chunks already written.\<close>

definition liveExporter :: VideoExporter where
  "liveExporter =
     newExporter\<lparr>decoder := Some \<lparr>videoElement = True, audioStream = True\<rparr>,
                 renderer := Some (), encoder := Some Configured,
                 audioEncoder := Some Configured, audioContext := Some (),
                 audioSource := Some (), audioProcessor := Some (),
                 muxer := Some \<lparr>muxHasAudio = True, videoChunks = 3, audioChunks = 0\<rparr>,
                 encodeQueue := 7, muxingPromises := [Fulfilled, Fulfilled, Fulfilled],
                 chunkCount := 3, queuePeak := 10\<rparr>"

text \<open>
  A tenth of a second of video (three frames at 30 frames per second) with an audio track,
  where the muxer rejects the second video chunk and the second audio chunk.
\<close>

definition lossyEnv :: Env where
  "lossyEnv =
     (calmEnv (1 / 10))
       \<lparr>media := Some \<lparr>mediaWidth = 1920, mediaHeight = 1080, mediaDuration = 1 / 10,
                       audioTracks = 1\<rparr>,
        audioPassEvents := [AudioChunk None, AudioChunk (Some ''write failed'')],
        flushEvents := [VideoChunk plainMeta None, VideoChunk plainMeta (Some ''write failed''),
                        VideoChunk plainMeta None]\<rparr>"

text \<open>The same source on a platform without Opus support.\<close>

definition muteEnv :: Env where
  "muteEnv =
     (calmEnv (1 / 10))
       \<lparr>media := Some \<lparr>mediaWidth = 1920, mediaHeight = 1080, mediaDuration = 1 / 10,
                       audioTracks = 1\<rparr>,
        audioSupported := False\<rparr>"

text \<open>A platform without hardware encoding, and one without any encoder.\<close>

definition softwareEnv :: Env where
  "softwareEnv = (calmEnv (1 / 10))\<lparr>hardwareSupported := False\<rparr>"

definition noEncoderEnv :: Env where
  "noEncoderEnv = (calmEnv (1 / 10))\<lparr>hardwareSupported := False, softwareSupported := False\<rparr>"

text \<open>
  A slow encoder: during frame 1 the loop has to sleep twice before a chunk is delivered.
\<close>

definition slowEnv :: Env where
  "slowEnv =
     (calmEnv 1)\<lparr>frames := (\<lambda>i. if i = 1
                                 then calmFrame\<lparr>pollTicks := [[], [VideoChunk plainMeta None]]\<rparr>
                                 else calmFrame)\<rparr>"

section \<open>Properties of the time mapper\<close>


lemma walkTrims_ge: "list_all (\<lambda>r. startMs r < endMs r) xs \<Longrightarrow> s \<le> walkTrims xs s"
proof (induction xs arbitrary: s)
  case Nil then show ?case by simp
next
  case (Cons x xs)
  then have "s + (endMs x - startMs x) \<le> walkTrims xs (s + (endMs x - startMs x))" by simp
  with Cons.prems show ?case by (auto simp: Let_def)
qed

lemma walkTrims_mono:
  "list_all (\<lambda>r. startMs r < endMs r) xs \<Longrightarrow> s1 \<le> s2 \<Longrightarrow> walkTrims xs s1 \<le> walkTrims xs s2"
proof (induction xs arbitrary: s1 s2)
  case Nil then show ?case by simp
next
  case (Cons x xs)
  let ?d = "endMs x - startMs x"
  have v: "list_all (\<lambda>r. startMs r < endMs r) xs" using Cons.prems by auto
  show ?case
  proof (cases "s1 < startMs x")
    case True
    have "s2 \<le> walkTrims (x # xs) s2" using walkTrims_ge[OF Cons.prems(1)] .
    with True Cons.prems(2) show ?thesis by simp
  next
    case False
    with Cons.prems(2) have "\<not> s2 < startMs x" by simp
    with False Cons.IH[OF v, of "s1 + ?d" "s2 + ?d"] Cons.prems(2) show ?thesis
      by (simp add: Let_def)
  qed
qed





text \<open>
  C2. \<open>mapEffectiveToSourceTime\<close> is monotonic non-decreasing: for every configuration
  whose trim regions have \<open>startMs < endMs\<close> (in any order, overlapping or not) and all
  effective times \<open>t1 < t2\<close>, the source time of \<open>t1\<close> is at most that of \<open>t2\<close>.
\<close>

theorem mapEffectiveToSourceTime_monotonic:
  "validTrims (trimsOf config) \<Longrightarrow> t1 < t2 \<Longrightarrow>
     mapEffectiveToSourceTime config t1 \<le> mapEffectiveToSourceTime config t2"
  unfolding mapEffectiveToSourceTime_def Let_def
  by (rule walkTrims_mono) (simp_all add: validTrims_def list_all_iff)

theorem mapEffectiveToSourceTime_monotonic_witness:
  "validTrims (trimsOf (config30 (Some [\<lparr>startMs = 3000, endMs = 6000\<rparr>,
                                        \<lparr>startMs = 2000, endMs = 4000\<rparr>])))
   \<and> (1500::real) < 2500
   \<and> mapEffectiveToSourceTime (config30 (Some [\<lparr>startMs = 3000, endMs = 6000\<rparr>,
                                        \<lparr>startMs = 2000, endMs = 4000\<rparr>])) 1500 = 1500
   \<and> mapEffectiveToSourceTime (config30 (Some [\<lparr>startMs = 3000, endMs = 6000\<rparr>,
                                        \<lparr>startMs = 2000, endMs = 4000\<rparr>])) 2500 = 7500
   \<and> mapEffectiveToSourceTime (config30 (Some [\<lparr>startMs = 3000, endMs = 6000\<rparr>,
                                        \<lparr>startMs = 2000, endMs = 4000\<rparr>])) 1500
       \<le> mapEffectiveToSourceTime (config30 (Some [\<lparr>startMs = 3000, endMs = 6000\<rparr>,
                                        \<lparr>startMs = 2000, endMs = 4000\<rparr>])) 2500"
proof -
  have v: "validTrims (trimsOf (config30 (Some [\<lparr>startMs = 3000, endMs = 6000\<rparr>,
                                        \<lparr>startMs = 2000, endMs = 4000\<rparr>])))"
    by (simp add: validTrims_def trimsOf_def config30_def)
  have l: "(1500::real) < 2500" by simp
  from mapEffectiveToSourceTime_monotonic[OF v l] v show ?thesis
    by (simp add: mapEffectiveToSourceTime_def trimsOf_def config30_def)
qed

section \<open>Properties of the effective duration\<close>

text \<open>Evaluating the rounding on a given number.\<close>

lemma binade_numeral:
  "binade (numeral k) a e =
     (if 2 \<le> a then binade (pred_numeral k) (a / 2) (e + 1)
      else if a < 1 \<and> - 1022 < e then binade (pred_numeral k) (a * 2) (e - 1)
      else e)"
  by (simp add: numeral_eq_Suc)

lemmas double_eval = rnd64_def binade_numeral pow2_def roundHalfEven_def
  fadd_def fsub_def fmul_def fdiv_def Let_def

lemmas duration_defs = totalFramesOf_def getEffectiveDuration_def totalTrimDuration_def
  trimsOf_def double_eval

text \<open>
  The doubles nearest to 0.1, 0.3 and 2.01, the sum \<open>0.1 + 0.2\<close> on doubles, which is
  the double above 0.3, and two ties, which go to the even significand.
\<close>

lemma rnd64_examples:
  "rnd64 (1 / 10) = 3602879701896397 / 2 ^ 55"
  "rnd64 (3 / 10) = 5404319552844595 / 2 ^ 54"
  "rnd64 2.01 = 1131529406376837 / 2 ^ 49"
  "fadd (rnd64 (1 / 10)) (rnd64 (2 / 10)) = 5404319552844596 / 2 ^ 54"
  "rnd64 2 = 2" "rnd64 1 = 1" "rnd64 (- (3 / 2)) = - (3 / 2)"
  "rnd64 (2 ^ 53 + 1) = 2 ^ 53" "rnd64 (2 ^ 53 + 3) = 2 ^ 53 + 4"
  by (simp_all add: double_eval)

text \<open>A tenth of a second at 30 frames per second is three frames.\<close>

lemma totalFrames_tenth: "totalFramesOf (config30 None) (1 / 10) = 3"
  by (simp add: duration_defs config30_def)



lemma rnd64_zero [simp]: "rnd64 0 = 0"
  by (simp add: rnd64_def)





lemma pow2_0 [simp]: "pow2 0 = 1" by (simp add: pow2_def)
















section \<open>Properties of the exporter\<close>

lemma progressCalls_append [simp]:
  "progressCalls (xs @ ys) = progressCalls xs @ progressCalls ys"
  by (induction xs rule: progressCalls.induct) simp_all

lemma encodeCalls_append [simp]:
  "encodeCalls (xs @ ys) = encodeCalls xs @ encodeCalls ys"
  by (induction xs rule: encodeCalls.induct) simp_all

lemma configureCalls_append [simp]:
  "configureCalls (xs @ ys) = configureCalls xs @ configureCalls ys"
  by (induction xs rule: configureCalls.induct) simp_all

lemma supportQueries_append [simp]:
  "supportQueries (xs @ ys) = supportQueries xs @ supportQueries ys"
  by (induction xs rule: supportQueries.induct) simp_all

text \<open>What the pieces do to the trace and the queue.\<close>

lemma release_steps:
  "releaseAudioProcessor s = s\<lparr>audioProcessor := None,
     trace := trace s @ (case audioProcessor s of None \<Rightarrow> [] | Some _ \<Rightarrow> [ProcessorDisconnect])\<rparr>"
  "releaseAudioSource s = s\<lparr>audioSource := None,
     trace := trace s @ (case audioSource s of None \<Rightarrow> [] | Some _ \<Rightarrow> [SourceDisconnect])\<rparr>"
  "releaseAudioContext s = s\<lparr>audioContext := None,
     trace := trace s @ (case audioContext s of None \<Rightarrow> [] | Some _ \<Rightarrow> [ContextClose])\<rparr>"
  "releaseAudioEncoder s = s\<lparr>audioEncoder := None,
     trace := trace s @ (if audioEncoder s = Some Configured then [AudioClose] else [])\<rparr>"
  "releaseEncoder s = s\<lparr>encoder := None,
     trace := trace s @ (if encoder s = Some Configured then [Close] else [])\<rparr>"
  "releaseDecoder s = s\<lparr>decoder := None,
     trace := trace s @ (case decoder s of None \<Rightarrow> [] | Some _ \<Rightarrow> [DecoderDestroy])\<rparr>"
  "releaseRenderer s = s\<lparr>renderer := None,
     trace := trace s @ (case renderer s of None \<Rightarrow> [] | Some _ \<Rightarrow> [RendererDestroy])\<rparr>"
  by (simp_all add: releaseAudioProcessor_def releaseAudioSource_def releaseAudioContext_def
        releaseAudioEncoder_def releaseEncoder_def releaseDecoder_def releaseRenderer_def
        call_def split: option.splits)

lemma cleanup_eq:
  "cleanup s = s\<lparr>audioProcessor := None, audioSource := None, audioContext := None,
      audioEncoder := None, encoder := None, decoder := None, renderer := None,
      muxer := None, encodeQueue := 0, muxingPromises := [], chunkCount := 0,
      audioChunkCount := 0, videoDescription := None, videoColorSpace := None,
      trace := trace s @ releaseCalls s\<rparr>"
  by (simp add: cleanup_def release_steps releaseCalls_def Let_def)

lemma releaseCalls_calls:
  "progressCalls (releaseCalls s) = []" "encodeCalls (releaseCalls s) = []"
  "count_list (releaseCalls s) ExtractAudio = 0"
  by (simp_all add: releaseCalls_def split: option.splits)

lemma cleanup_fields:
  "audioProcessor (cleanup s) = None" "audioSource (cleanup s) = None"
  "audioContext (cleanup s) = None" "audioEncoder (cleanup s) = None"
  "encoder (cleanup s) = None" "decoder (cleanup s) = None" "renderer (cleanup s) = None"
  "muxer (cleanup s) = None" "encodeQueue (cleanup s) = 0" "muxingPromises (cleanup s) = []"
  "cancelled (cleanup s) = cancelled s" "queuePeak (cleanup s) = queuePeak s"
  "trace (cleanup s) = trace s @ releaseCalls s"
  by (simp_all add: cleanup_eq)

lemma cleanup_calls:
  "progressCalls (trace (cleanup s)) = progressCalls (trace s)"
  "encodeCalls (trace (cleanup s)) = encodeCalls (trace s)"
  "count_list (trace (cleanup s)) ExtractAudio = count_list (trace s) ExtractAudio"
  by (simp_all add: cleanup_fields releaseCalls_calls)

lemma videoOutput_fields:
  "encodeQueue (videoOutput meta w s) = encodeQueue s - 1"
  "queuePeak (videoOutput meta w s) = queuePeak s"
  "cancelled (videoOutput meta w s) = cancelled s"
  "encoder (videoOutput meta w s) = encoder s"
  "renderer (videoOutput meta w s) = renderer s"
  "progressCalls (trace (videoOutput meta w s)) = progressCalls (trace s)"
  "encodeCalls (trace (videoOutput meta w s)) = encodeCalls (trace s)"
  by (simp_all add: videoOutput_def videoMuxingTask_def call_def Let_def split: option.splits)

lemma audioOutput_fields:
  "encodeQueue (audioOutput w s) = encodeQueue s"
  "queuePeak (audioOutput w s) = queuePeak s"
  "cancelled (audioOutput w s) = cancelled s"
  "encoder (audioOutput w s) = encoder s"
  "renderer (audioOutput w s) = renderer s"
  "progressCalls (trace (audioOutput w s)) = progressCalls (trace s)"
  "encodeCalls (trace (audioOutput w s)) = encodeCalls (trace s)"
  by (simp_all add: audioOutput_def audioMuxingTask_def call_def Let_def split: option.splits)

lemma applyEvent_calls:
  "progressCalls (trace (applyEvent e s)) = progressCalls (trace s)"
  "encodeCalls (trace (applyEvent e s)) = encodeCalls (trace s)"
  by (cases e; simp add: videoOutput_fields audioOutput_fields cancel_def cleanup_calls call_def)+

lemma applyEvents_calls:
  "progressCalls (trace (applyEvents es s)) = progressCalls (trace s)"
  "encodeCalls (trace (applyEvents es s)) = encodeCalls (trace s)"
  by (induction es arbitrary: s; simp add: applyEvent_calls)+

lemma applyEvent_bounded: "queueBounded s \<Longrightarrow> queueBounded (applyEvent e s)"
  by (cases e)
     (auto simp: queueBounded_def videoOutput_fields audioOutput_fields cancel_def
        cleanup_fields call_def MAX_ENCODE_QUEUE_def split: option.splits)

lemma applyEvents_bounded: "queueBounded s \<Longrightarrow> queueBounded (applyEvents es s)"
  by (induction es arbitrary: s) (simp_all add: applyEvent_bounded)

lemma waitForQueue_calls:
  "progressCalls (trace (snd (waitForQueue ticks s))) = progressCalls (trace s)"
  "encodeCalls (trace (snd (waitForQueue ticks s))) = encodeCalls (trace s)"
  by (induction ticks arbitrary: s; simp add: applyEvents_calls)+

lemma waitForQueue_bounded:
  "queueBounded s \<Longrightarrow> queueBounded (snd (waitForQueue ticks s))"
  by (induction ticks arbitrary: s) (simp_all add: applyEvents_bounded)

lemma waitForQueue_free:
  "waitForQueue ticks s = (Normal u, s') \<Longrightarrow> encodeQueue s' < MAX_ENCODE_QUEUE \<or> cancelled s'"
  by (induction ticks arbitrary: s) (auto split: if_splits)

lemma reportProgress_fields:
  "encodeQueue (reportProgress config n i s) = encodeQueue s"
  "queuePeak (reportProgress config n i s) = queuePeak s"
  "cancelled (reportProgress config n i s) = cancelled s"
  "encoder (reportProgress config n i s) = encoder s"
  "encodeCalls (trace (reportProgress config n i s)) = encodeCalls (trace s)"
  "progressCalls (trace (reportProgress config n i s))
     = progressCalls (trace s) @ (if onProgress config then [progressAt n (Suc i)] else [])"
  by (simp_all add: reportProgress_def call_def Let_def)

lemma reportProgress_bounded:
  "queueBounded (reportProgress config n i s) = queueBounded s"
  by (simp add: queueBounded_def reportProgress_fields)

lemma frameStep_bounded:
  assumes "queueBounded s"
  shows "queueBounded (snd (frameStep config n fe i s))"
proof -
  let ?s1 = "applyEvents (seekEvents fe) s"
  let ?s2 = "call (RenderFrame (mapEffectiveToSourceTime config
               (real i * (1 / frameRate config) * 1000) * 1000)) ?s1"
  let ?s3 = "applyEvents (renderEvents fe) ?s2"
  have b1: "queueBounded ?s1" using assms by (rule applyEvents_bounded)
  then have b2: "queueBounded ?s2" by (simp add: queueBounded_def call_def)
  then have b3: "queueBounded ?s3" by (rule applyEvents_bounded)
  obtain c s4 where w: "waitForQueue (pollTicks fe) ?s3 = (c, s4)" by (cases "waitForQueue (pollTicks fe) ?s3")
  have b4: "queueBounded s4" using waitForQueue_bounded[OF b3, of "pollTicks fe"] w by simp
  have free: "encodeQueue s4 < MAX_ENCODE_QUEUE \<or> cancelled s4" if "c = Normal ()"
    using waitForQueue_free w that by blast
  have sub: "queueBounded ((s4\<lparr>encodeQueue := encodeQueue s4 + 1\<rparr>)
                \<lparr>queuePeak := max (queuePeak s4) (encodeQueue s4 + 1)\<rparr>)"
    if "c = Normal ()" "encoder s4 = Some Configured"
    using b4 free[OF that(1)] that(2) by (auto simp: queueBounded_def)
  show ?thesis
    using b1 b2 b3 b4 sub w
    by (cases c)
       (auto simp: frameStep_def Let_def reportProgress_bounded call_def queueBounded_def
          reportProgress_fields split: option.splits)
qed

lemma frameStep_calls:
  assumes st: "frameStep config n fe i s = (c, s')"
  shows "progressCalls (trace s')
       = progressCalls (trace s)
         @ (if c = Normal () \<and> onProgress config then [progressAt n (Suc i)] else [])"
proof -
  let ?s1 = "applyEvents (seekEvents fe) s"
  let ?s2 = "call (RenderFrame (mapEffectiveToSourceTime config
               (real i * (1 / frameRate config) * 1000) * 1000)) ?s1"
  let ?s3 = "applyEvents (renderEvents fe) ?s2"
  obtain c4 s4 where w: "waitForQueue (pollTicks fe) ?s3 = (c4, s4)"
    by (cases "waitForQueue (pollTicks fe) ?s3")
  have "progressCalls (trace s4) = progressCalls (trace ?s3)"
    using waitForQueue_calls(1)[of "pollTicks fe" ?s3] w by simp
  then have p4: "progressCalls (trace s4) = progressCalls (trace s)"
    by (simp add: applyEvents_calls call_def)
  show ?thesis
    using st p4 w
    by (cases c4)
       (auto simp: frameStep_def Let_def reportProgress_fields applyEvents_calls call_def
          split: option.splits if_splits)
qed

declare frameLoop.simps [simp del]

lemma frameLoop_stop:
  "\<not> (int i < n \<and> \<not> cancelled s) \<Longrightarrow> frameLoop env config n i s = (Normal (), s, i)"
  by (subst frameLoop.simps) auto

lemma frameLoop_step:
  "int i < n \<and> \<not> cancelled s \<Longrightarrow> frameStep config n (frames env i) i s = (c, s1) \<Longrightarrow>
   frameLoop env config n i s =
     (case c of Normal u \<Rightarrow> frameLoop env config n (i + 1) s1
              | Throws e \<Rightarrow> (Throws e, s1, i)
              | Never \<Rightarrow> (Never, s1, i))"
  by (subst frameLoop.simps) simp

lemma frameLoop_bounded:
  "queueBounded s \<Longrightarrow> queueBounded (fst (snd (frameLoop env config n i s)))"
proof (induction env config n i s rule: frameLoop.induct)
  case (1 env config n i s)
  show ?case
  proof (cases "int i < n \<and> \<not> cancelled s")
    case False
    then show ?thesis using "1.prems" by (auto simp: frameLoop_stop)
  next
    case True
    obtain c s' where st: "frameStep config n (frames env i) i s = (c, s')"
      by (cases "frameStep config n (frames env i) i s")
    have b: "queueBounded s'" using frameStep_bounded[OF "1.prems", of config n "frames env i" i] st by simp
    show ?thesis
    proof (cases c)
      case (Normal u)
      from "1.IH"[OF True st[symmetric] Normal b] True st Normal show ?thesis
        by (simp add: frameLoop_step[OF True st])
    next
      case (Throws e)
      with True st b show ?thesis by (simp add: frameLoop_step[OF True st])
    next
      case Never
      with True st b show ?thesis by (simp add: frameLoop_step[OF True st])
    qed
  qed
qed

lemma frameLoop_progress:
  "frameLoop env config n i s = (c, s', k) \<Longrightarrow>
     i \<le> k \<and> progressCalls (trace s')
       = progressCalls (trace s)
         @ (if onProgress config then map (progressAt n) [Suc i ..< Suc k] else [])"
proof (induction env config n i s rule: frameLoop.induct)
  case (1 env config n i s)
  show ?case
  proof (cases "int i < n \<and> \<not> cancelled s")
    case False
    then show ?thesis using "1.prems" by (auto simp: frameLoop_stop)
  next
    case True
    obtain c1 s1 where st: "frameStep config n (frames env i) i s = (c1, s1)"
      by (cases "frameStep config n (frames env i) i s")
    note pc = frameStep_calls[OF st]
    show ?thesis
    proof (cases c1)
      case (Normal u)
      have run: "frameLoop env config n (i + 1) s1 = (c, s', k)"
        using "1.prems" True st Normal by (simp add: frameLoop_step[OF True st])
      from "1.IH"[OF True st[symmetric] Normal run]
      have ik: "i + 1 \<le> k"
        and p: "progressCalls (trace s') = progressCalls (trace s1)
            @ (if onProgress config then map (progressAt n) [Suc (i + 1) ..< Suc k] else [])"
        by simp_all
      have up: "[Suc i ..< Suc k] = Suc i # [Suc (i + 1) ..< Suc k]"
        using ik by (simp add: upt_conv_Cons)
      show ?thesis using ik p pc Normal up by simp
    next
      case (Throws e)
      with "1.prems" True st pc show ?thesis by (auto simp: frameLoop_step[OF True st])
    next
      case Never
      with "1.prems" True st pc show ?thesis by (auto simp: frameLoop_step[OF True st])
    qed
  qed
qed


text \<open>A calm frame with a configured encoder and room in the queue submits one frame.\<close>

lemma frameStep_calm:
  assumes "renderer s \<noteq> None" "encoder s = Some Configured" "\<not> cancelled s"
    "encodeQueue s < MAX_ENCODE_QUEUE"
  shows "\<exists>s'. frameStep config n calmFrame i s = (Normal (), s')
     \<and> renderer s' \<noteq> None \<and> encoder s' = Some Configured \<and> \<not> cancelled s'
     \<and> encodeQueue s' = encodeQueue s + 1
     \<and> length (encodeCalls (trace s')) = Suc (length (encodeCalls (trace s)))"
  using assms
  by (simp add: frameStep_def calmFrame_def Let_def call_def reportProgress_def)


lemma promiseAll_snoc [simp]: "promiseAll (ps @ [Fulfilled]) = promiseAll ps"
  by (induction ps rule: promiseAll.induct) simp_all

lemma muxingTasks_fulfilled:
  "snd (videoMuxingTask w s) = Fulfilled" "snd (audioMuxingTask w s) = Fulfilled"
  by (simp_all add: videoMuxingTask_def audioMuxingTask_def split: option.splits)

lemma videoOutput_promises:
  "muxingPromises (videoOutput meta w s) = muxingPromises s @ [Fulfilled]"
  by (simp add: videoOutput_def videoMuxingTask_def call_def Let_def split: option.splits)

lemma audioOutput_promises:
  "muxingPromises (audioOutput w s) = muxingPromises s @ [Fulfilled]"
  by (simp add: audioOutput_def audioMuxingTask_def call_def Let_def split: option.splits)

lemma applyEvent_joined: "joined s \<Longrightarrow> joined (applyEvent e s)"
  by (cases e)
     (simp_all add: joined_def videoOutput_promises audioOutput_promises cancel_def
        cleanup_fields call_def)

lemma applyEvents_joined: "joined s \<Longrightarrow> joined (applyEvents es s)"
  by (induction es arbitrary: s) (simp_all add: applyEvent_joined)

lemma waitForQueue_joined: "joined s \<Longrightarrow> joined (snd (waitForQueue ticks s))"
  by (induction ticks arbitrary: s) (simp_all add: applyEvents_joined)

lemma joined_upd [simp]:
  "joined (call c s) = joined s"
  "joined (s\<lparr>encodeQueue := q\<rparr>) = joined s"
  "joined (s\<lparr>queuePeak := q\<rparr>) = joined s"
  "joined (reportProgress config n i s) = joined s"
  by (simp_all add: joined_def call_def reportProgress_def Let_def)

lemma frameStep_joined:
  assumes "joined s"
  shows "joined (snd (frameStep config n fe i s))"
proof -
  let ?s1 = "applyEvents (seekEvents fe) s"
  let ?s2 = "call (RenderFrame (mapEffectiveToSourceTime config
               (real i * (1 / frameRate config) * 1000) * 1000)) ?s1"
  let ?s3 = "applyEvents (renderEvents fe) ?s2"
  have b1: "joined ?s1" using assms by (rule applyEvents_joined)
  then have b2: "joined ?s2" by simp
  then have b3: "joined ?s3" by (rule applyEvents_joined)
  obtain c s4 where w: "waitForQueue (pollTicks fe) ?s3 = (c, s4)"
    by (cases "waitForQueue (pollTicks fe) ?s3")
  have b4: "joined s4" using waitForQueue_joined[OF b3, of "pollTicks fe"] w by simp
  show ?thesis
    using b1 b2 b3 b4 w
    by (cases c) (auto simp: frameStep_def Let_def split: option.splits)
qed

lemma frameLoop_joined:
  "joined s \<Longrightarrow> joined (fst (snd (frameLoop env config n i s)))"
proof (induction env config n i s rule: frameLoop.induct)
  case (1 env config n i s)
  show ?case
  proof (cases "int i < n \<and> \<not> cancelled s")
    case False
    then show ?thesis using "1.prems" by (auto simp: frameLoop_stop)
  next
    case True
    obtain c s' where st: "frameStep config n (frames env i) i s = (c, s')"
      by (cases "frameStep config n (frames env i) i s")
    have b: "joined s'"
      using frameStep_joined[OF "1.prems", of config n "frames env i" i] st by simp
    show ?thesis
    proof (cases c)
      case (Normal u)
      from "1.IH"[OF True st[symmetric] Normal b] Normal show ?thesis
        by (simp add: frameLoop_step[OF True st])
    next
      case (Throws e)
      with b show ?thesis by (simp add: frameLoop_step[OF True st])
    next
      case Never
      with b show ?thesis by (simp add: frameLoop_step[OF True st])
    qed
  qed
qed

text \<open>The initialisation, the audio pass and the end of the export.\<close>

lemma initializeEncoder_fields:
  "encodeQueue (snd (initializeEncoder env config s)) = 0"
  "muxingPromises (snd (initializeEncoder env config s)) = []"
  "queuePeak (snd (initializeEncoder env config s)) = queuePeak s"
  "cancelled (snd (initializeEncoder env config s)) = cancelled s"
  "audioEncoder (snd (initializeEncoder env config s)) = audioEncoder s"
  "decoder (snd (initializeEncoder env config s)) = decoder s"
  "encodeCalls (trace (snd (initializeEncoder env config s))) = encodeCalls (trace s)"
  "count_list (trace (snd (initializeEncoder env config s))) ExtractAudio
     = count_list (trace s) ExtractAudio"
  by (simp_all add: initializeEncoder_def call_def Let_def)

lemma initializeAudioEncoder_fields:
  "encodeQueue (initializeAudioEncoder env s) = encodeQueue s"
  "muxingPromises (initializeAudioEncoder env s) = muxingPromises s"
  "queuePeak (initializeAudioEncoder env s) = queuePeak s"
  "cancelled (initializeAudioEncoder env s) = cancelled s"
  "encoder (initializeAudioEncoder env s) = encoder s"
  "decoder (initializeAudioEncoder env s) = decoder s"
  "encodeCalls (trace (initializeAudioEncoder env s)) = encodeCalls (trace s)"
  "count_list (trace (initializeAudioEncoder env s)) ExtractAudio
     = count_list (trace s) ExtractAudio"
  by (simp_all add: initializeAudioEncoder_def call_def Let_def split: option.splits)

lemma initializeAudioEncoder_unsupported:
  "\<not> audioSupported env \<Longrightarrow> audioEncoder (initializeAudioEncoder env s) = audioEncoder s"
  "\<not> audioSupported env \<Longrightarrow> audioProcessor (initializeAudioEncoder env s) = audioProcessor s"
  "\<not> audioSupported env \<Longrightarrow>
     count_list (trace (initializeAudioEncoder env s)) AudioConfigure
       = count_list (trace s) AudioConfigure"
  by (simp_all add: initializeAudioEncoder_def call_def Let_def split: option.splits)

lemma initialize_fields:
  "encodeQueue (snd (initialize env config s)) = (if media env = None \<or> rendererInitThrows env \<noteq> None then encodeQueue s else 0)"
  "muxingPromises (snd (initialize env config s)) = (if media env = None \<or> rendererInitThrows env \<noteq> None then muxingPromises s else [])"
  "queuePeak (snd (initialize env config s)) = queuePeak s"
  "cancelled (snd (initialize env config s)) = cancelled s"
  "encodeCalls (trace (snd (initialize env config s))) = encodeCalls (trace s)"
  "count_list (trace (snd (initialize env config s))) ExtractAudio
     = count_list (trace s) ExtractAudio"
  by (auto simp: initialize_def loadVideo_def Let_def initializeEncoder_fields
        initializeAudioEncoder_fields
      split: option.splits prod.splits Completion.splits
      dest!: arg_cong[where f = snd])

lemma andThen_snd:
  "P (snd m) \<Longrightarrow> (\<And>a s. P s \<Longrightarrow> P (snd (f a s))) \<Longrightarrow> P (snd (andThen m f))"
  by (cases m; cases "fst m") (auto simp: andThen_def)

lemma output_extract:
  "count_list (trace (videoOutput meta w s)) ExtractAudio = count_list (trace s) ExtractAudio"
  "count_list (trace (audioOutput w s)) ExtractAudio = count_list (trace s) ExtractAudio"
  by (simp_all add: videoOutput_def audioOutput_def videoMuxingTask_def audioMuxingTask_def
      call_def Let_def split: option.splits)

lemma applyEvent_extract:
  "count_list (trace (applyEvent e s)) ExtractAudio = count_list (trace s) ExtractAudio"
  by (cases e) (simp_all add: output_extract cancel_def cleanup_calls call_def)

lemma applyEvents_extract:
  "count_list (trace (applyEvents es s)) ExtractAudio = count_list (trace s) ExtractAudio"
  by (induction es arbitrary: s) (simp_all add: applyEvent_extract)

lemma waitForQueue_extract:
  "count_list (trace (snd (waitForQueue ticks s))) ExtractAudio
     = count_list (trace s) ExtractAudio"
  by (induction ticks arbitrary: s) (simp_all add: applyEvents_extract)

lemma frameStep_extract:
  "count_list (trace (snd (frameStep config n fe i s))) ExtractAudio
     = count_list (trace s) ExtractAudio"
proof -
  let ?s1 = "applyEvents (seekEvents fe) s"
  let ?s2 = "call (RenderFrame (mapEffectiveToSourceTime config
               (real i * (1 / frameRate config) * 1000) * 1000)) ?s1"
  let ?s3 = "applyEvents (renderEvents fe) ?s2"
  obtain c s4 where w: "waitForQueue (pollTicks fe) ?s3 = (c, s4)"
    by (cases "waitForQueue (pollTicks fe) ?s3")
  have "count_list (trace s4) ExtractAudio = count_list (trace ?s3) ExtractAudio"
    using waitForQueue_extract[of "pollTicks fe" ?s3] w by simp
  then have b4: "count_list (trace s4) ExtractAudio = count_list (trace s) ExtractAudio"
    by (simp add: applyEvents_extract call_def)
  show ?thesis
    using b4 w
    by (cases c)
       (auto simp: frameStep_def Let_def applyEvents_extract call_def reportProgress_def
          split: option.splits)
qed

lemma frameLoop_extract:
  "count_list (trace (fst (snd (frameLoop env config n i s)))) ExtractAudio
     = count_list (trace s) ExtractAudio"
proof (induction env config n i s rule: frameLoop.induct)
  case (1 env config n i s)
  show ?case
  proof (cases "int i < n \<and> \<not> cancelled s")
    case False
    then show ?thesis by (auto simp: frameLoop_stop)
  next
    case True
    obtain c s' where st: "frameStep config n (frames env i) i s = (c, s')"
      by (cases "frameStep config n (frames env i) i s")
    have b: "count_list (trace s') ExtractAudio = count_list (trace s) ExtractAudio"
      using frameStep_extract[of config n "frames env i" i s] st by simp
    show ?thesis
    proof (cases c)
      case (Normal u)
      from "1.IH"[OF True st[symmetric] Normal] Normal b show ?thesis
        by (simp add: frameLoop_step[OF True st])
    next
      case (Throws e)
      with b show ?thesis by (simp add: frameLoop_step[OF True st])
    next
      case Never
      with b show ?thesis by (simp add: frameLoop_step[OF True st])
    qed
  qed
qed

text \<open>The end of the export keeps the three invariants.\<close>

lemma flush_extract:
  "count_list (trace (snd (flushEncoder env s))) ExtractAudio = count_list (trace s) ExtractAudio"
  "count_list (trace (snd (flushAudioEncoder env s))) ExtractAudio = count_list (trace s) ExtractAudio"
  "count_list (trace (snd (finalizeMuxer env s))) ExtractAudio = count_list (trace s) ExtractAudio"
  by (simp_all add: flushEncoder_def flushAudioEncoder_def finalizeMuxer_def applyEvents_extract
        call_def split: option.splits)

lemma queueBounded_call [simp]: "queueBounded (call c s) = queueBounded s"
  by (simp add: queueBounded_def call_def)

lemma flush_bounded:
  "queueBounded s \<Longrightarrow> queueBounded (snd (flushEncoder env s))"
  "queueBounded s \<Longrightarrow> queueBounded (snd (flushAudioEncoder env s))"
  "queueBounded s \<Longrightarrow> queueBounded (snd (finalizeMuxer env s))"
  by (simp_all add: flushEncoder_def flushAudioEncoder_def finalizeMuxer_def applyEvents_bounded
        split: option.splits)

lemma flush_joined:
  "joined s \<Longrightarrow> joined (snd (flushEncoder env s))"
  "joined s \<Longrightarrow> joined (snd (flushAudioEncoder env s))"
  "joined s \<Longrightarrow> joined (snd (finalizeMuxer env s))"
  by (simp_all add: flushEncoder_def flushAudioEncoder_def finalizeMuxer_def applyEvents_joined
        split: option.splits)

lemma finish_inv:
  assumes s: "P s"
    and v: "\<And>t. P t \<Longrightarrow> P (snd (flushEncoder env t))"
    and a: "\<And>t. P t \<Longrightarrow> P (snd (flushAudioEncoder env t))"
    and m: "\<And>t. P t \<Longrightarrow> P (snd (finalizeMuxer env t))"
  shows "P (snd (finish env s))"
proof (cases "cancelled s")
  case True
  with s show ?thesis by (simp add: finish_def)
next
  case False
  have "P (snd (andThen (flushEncoder env s) (\<lambda>_ s1.
          andThen (flushAudioEncoder env s1) (\<lambda>_ s2.
          andThen (promiseAll (muxingPromises s2), s2) (\<lambda>_ s3.
          finalizeMuxer env s3)))))"
    apply (rule andThen_snd[where P = P])
     apply (rule v[OF s])
    apply (rule andThen_snd[where P = P])
     apply (erule a)
    apply (rule andThen_snd[where P = P])
     apply simp
    apply (erule m)
    done
  with False show ?thesis by (simp add: finish_def)
qed

lemma finish_extract:
  "count_list (trace (snd (finish env s))) ExtractAudio = count_list (trace s) ExtractAudio"
  by (rule finish_inv[where P = "\<lambda>t. count_list (trace t) ExtractAudio = count_list (trace s) ExtractAudio"])
     (simp_all add: flush_extract)

lemma finish_bounded: "queueBounded s \<Longrightarrow> queueBounded (snd (finish env s))"
  by (rule finish_inv[where P = queueBounded]) (simp_all add: flush_bounded)

lemma finish_joined: "joined s \<Longrightarrow> joined (snd (finish env s))"
  by (rule finish_inv[where P = joined]) (simp_all add: flush_joined)

lemma extractAudio_bounded:
  "queueBounded s \<Longrightarrow> queueBounded (snd (extractAudio env config s))"
  by (simp add: extractAudio_def Let_def applyEvents_bounded split: option.splits)

lemma extractAudio_joined: "joined s \<Longrightarrow> joined (snd (extractAudio env config s))"
  by (simp add: extractAudio_def Let_def applyEvents_joined split: option.splits)

text \<open>The state in which the body of \<open>export\<close> ends.\<close>

lemma exportBody_inv:
  assumes i: "\<And>t. P0 t \<Longrightarrow> P (snd (initialize env config t))"
    and s: "P0 ((cleanup s)\<lparr>cancelled := False\<rparr>)"
    and a: "\<And>t. P t \<Longrightarrow> P (snd (extractAudio env config t))"
    and l: "\<And>t n. P t \<Longrightarrow> P (fst (snd (frameLoop env config n 0 t)))"
    and f: "\<And>t. P t \<Longrightarrow> P (snd (finish env t))"
  shows "P (snd (exportBody env config s))"
proof -
  let ?s1 = "(cleanup s)\<lparr>cancelled := False\<rparr>"
  have loop: "P (snd (case frameLoop env config n 0 t of
                        (c, s4, frameIndex) \<Rightarrow> andThen (c, s4) (\<lambda>_ s5. finish env s5)))"
    if t: "P t" for t n
  proof -
    obtain c4 s4 k where r: "frameLoop env config n 0 t = (c4, s4, k)"
      by (cases "frameLoop env config n 0 t")
    have p4: "P s4" using l[OF t, of n] r by simp
    have "P (snd (andThen (c4, s4) (\<lambda>_ s5. finish env s5)))"
      by (rule andThen_snd[where P = P]) (simp_all add: p4 f)
    then show ?thesis using r by simp
  qed
  have "P (snd (andThen (initialize env config ?s1) (\<lambda>videoInfo s2.
        andThen (if hasAudio videoInfo \<and> audioEncoder s2 \<noteq> None \<and> audioContext s2 \<noteq> None
                 then extractAudio env config s2 else (Normal (), s2)) (\<lambda>_ s3.
        (case frameLoop env config (totalFramesOf config (duration videoInfo)) 0 s3 of
              (c, s4, frameIndex) \<Rightarrow> andThen (c, s4) (\<lambda>_ s5. finish env s5))))))"
    apply (rule andThen_snd[where P = P])
     apply (rule i[OF s])
    apply (rule andThen_snd[where P = P])
     apply (simp add: a)
    apply (erule loop)
    done
  then show ?thesis by (simp add: exportBody_def Let_def)
qed

lemma exportBody_bounded:
  assumes "queuePeak s \<le> MAX_ENCODE_QUEUE"
  shows "queueBounded (snd (exportBody env config s))"
proof (rule exportBody_inv[where P = queueBounded
      and P0 = "\<lambda>t. queueBounded t \<and> \<not> cancelled t \<and> encodeQueue t = 0"])
  fix t assume t: "queueBounded t \<and> \<not> cancelled t \<and> encodeQueue t = 0"
  then show "queueBounded (snd (initialize env config t))"
    using initialize_fields(1,3,4)[of env config t]
    by (simp add: queueBounded_def MAX_ENCODE_QUEUE_def split: if_splits)
next
  show "queueBounded ((cleanup s)\<lparr>cancelled := False\<rparr>)
      \<and> \<not> cancelled ((cleanup s)\<lparr>cancelled := False\<rparr>)
      \<and> encodeQueue ((cleanup s)\<lparr>cancelled := False\<rparr>) = 0"
    using assms by (simp add: queueBounded_def cleanup_fields MAX_ENCODE_QUEUE_def)
qed (simp_all add: extractAudio_bounded frameLoop_bounded finish_bounded)

lemma exportBody_joined: "joined (snd (exportBody env config s))"
proof (rule exportBody_inv[where P = joined and P0 = "\<lambda>t. muxingPromises t = []"])
  fix t :: VideoExporter assume "muxingPromises t = []"
  then show "joined (snd (initialize env config t))"
    using initialize_fields(2)[of env config t] by (simp add: joined_def)
qed (simp_all add: cleanup_fields extractAudio_joined frameLoop_joined finish_joined)

lemma export_state:
  "snd (export env config s) = (if fst (exportBody env config s) = Never
      then snd (exportBody env config s) else cleanup (snd (exportBody env config s)))"
  by (simp add: export_def split: prod.splits Completion.splits)

lemmas export_defs = export_def exportBody_def initialize_def finish_def andThen_def
  flushEncoder_def flushAudioEncoder_def finalizeMuxer_def loadVideo_def
  initializeEncoder_def initializeAudioEncoder_def extractAudio_def frameStep_def
  reportProgress_def progressAt_def cleanup_eq releaseCalls_def cancel_def call_def
  encoderConfigOf_def totalFrames_tenth[unfolded config30_def] trimsOf_def
  mapEffectiveToSourceTime_def
  videoOutput_def videoMuxingTask_def audioOutput_def audioMuxingTask_def
  MAX_ENCODE_QUEUE_def getAudioStream_def frameLoop.simps

lemmas concrete_defs = calmEnv_def calmFrame_def config30_def newExporter_def plainMeta_def
  busyExporter_def liveExporter_def lossyEnv_def muteEnv_def softwareEnv_def noEncoderEnv_def
  slowEnv_def

lemma initialize_audio_unsupported:
  "\<not> audioSupported env \<Longrightarrow> audioEncoder (snd (initialize env config s)) = audioEncoder s"
  by (auto simp: initialize_def loadVideo_def Let_def initializeEncoder_fields
        initializeAudioEncoder_unsupported
      split: option.splits prod.splits Completion.splits
      dest!: arg_cong[where f = snd])

lemma initialize_no_encoder:
  "\<not> hardwareSupported env \<Longrightarrow> \<not> softwareSupported env \<Longrightarrow>
     \<exists>e. fst (initialize env config s) = Throws e"
  by (simp add: initialize_def loadVideo_def initializeEncoder_def Let_def
      split: option.splits)

text \<open>
  C10. \<open>cancel\<close> does more than set the flag: it runs \<open>cleanup\<close> itself, so in the state
  it returns the flag is set, the references to the audio processor, audio source, audio
  context, audio encoder, video encoder, decoder, renderer and muxer are all \<open>null\<close>,
  \<open>encodeQueue\<close> is 0 and \<open>muxingPromises\<close> is empty, and the release calls have been made.
  A \<open>cancel\<close> that arrives while the loop is suspended is this same function: nothing is
  left for the next checkpoint of the frame loop, and a frame whose seek it interrupts
  finds the renderer gone when it resumes. For an exporter whose collaborators are
  all alive, the calls are the two disconnects, the three closes and the two destroys.
\<close>

theorem cancel_releases_everything:
  "cancelled (cancel s)
   \<and> audioProcessor (cancel s) = None \<and> audioSource (cancel s) = None
   \<and> audioContext (cancel s) = None \<and> audioEncoder (cancel s) = None
   \<and> encoder (cancel s) = None \<and> decoder (cancel s) = None
   \<and> renderer (cancel s) = None \<and> muxer (cancel s) = None
   \<and> encodeQueue (cancel s) = 0 \<and> muxingPromises (cancel s) = []
   \<and> trace (cancel s) = trace s @ releaseCalls s
   \<and> applyEvent CancelCalled s = cancel s
   \<and> frameStep config n (fe\<lparr>seekEvents := [CancelCalled]\<rparr>) i s
       = (Throws ''Cannot read properties of null (reading 'renderFrame')'', cancel s)
   \<and> trace (cancel liveExporter)
       = [ProcessorDisconnect, SourceDisconnect, ContextClose, AudioClose, Close,
          DecoderDestroy, RendererDestroy]"
proof -
  have "renderer (cancel s) = None" by (simp add: cancel_def cleanup_eq)
  then have "frameStep config n (fe\<lparr>seekEvents := [CancelCalled]\<rparr>) i s
       = (Throws ''Cannot read properties of null (reading 'renderFrame')'', cancel s)"
    by (simp add: frameStep_def Let_def)
  then show ?thesis
    by (simp add: cancel_def cleanup_eq releaseCalls_def liveExporter_def newExporter_def)
qed

text \<open>
  C5, as stated, fails: when the hardware configuration is unsupported and the software
  one is supported, \<open>configure\<close> is called once, not twice. The hardware configuration is
  only probed with \<open>isConfigSupported\<close>; two support queries and one \<open>configure\<close> are made,
  in \<open>initializeEncoder\<close> and in the whole export.
\<close>

theorem configure_twice_counterexample:
  "fst (initializeEncoder softwareEnv (config30 None) newExporter) = Normal ()
   \<and> length (configureCalls
        (trace (snd (initializeEncoder softwareEnv (config30 None) newExporter)))) = 1
   \<and> length (supportQueries
        (trace (snd (initializeEncoder softwareEnv (config30 None) newExporter)))) = 2
   \<and> length (configureCalls
        (trace (snd (export softwareEnv (config30 None) newExporter)))) = 1"
  by (simp add: export_defs concrete_defs Let_def)

text \<open>
  C5, amended. Encoder initialisation first asks whether the hardware-accelerated
  configuration is supported. When it is, the encoder is configured once with it. When it
  is not, the same configuration with software encoding (same codec, resolution and
  bitrate) is asked for; when that is supported the encoder is configured exactly once,
  with the software configuration, and the export can succeed. When neither is supported,
  initialisation throws, the encoder is never configured, and \<open>export\<close> resolves with
  \<open>success = false\<close> without any call of \<open>encode\<close>.
\<close>

theorem initializeEncoder_probes_then_configures:
  "hardwareAcceleration (encoderConfigOf config) = PreferHardware
   \<and> (hardwareSupported env \<longrightarrow>
        fst (initializeEncoder env config s) = Normal ()
        \<and> encoder (snd (initializeEncoder env config s)) = Some Configured
        \<and> trace (snd (initializeEncoder env config s))
            = trace s @ [IsConfigSupported (encoderConfigOf config),
                         Configure (encoderConfigOf config)])
   \<and> (\<not> hardwareSupported env \<and> softwareSupported env \<longrightarrow>
        fst (initializeEncoder env config s) = Normal ()
        \<and> encoder (snd (initializeEncoder env config s)) = Some Configured
        \<and> trace (snd (initializeEncoder env config s))
            = trace s @ [IsConfigSupported (encoderConfigOf config),
                         IsConfigSupported
                           ((encoderConfigOf config)\<lparr>hardwareAcceleration := PreferSoftware\<rparr>),
                         Configure
                           ((encoderConfigOf config)\<lparr>hardwareAcceleration := PreferSoftware\<rparr>)])
   \<and> (\<not> hardwareSupported env \<and> \<not> softwareSupported env \<longrightarrow>
        fst (initializeEncoder env config s)
          = Throws ''Video encoding not supported on this system''
        \<and> configureCalls (trace (snd (initializeEncoder env config s)))
            = configureCalls (trace s)
        \<and> (\<exists>e. fst (export env config s)
                  = Some \<lparr>success = False, blob = None, error = Some e\<rparr>)
        \<and> encodeCalls (trace (snd (export env config s))) = encodeCalls (trace s))
   \<and> fst (export softwareEnv (config30 None) newExporter)
       = Some \<lparr>success = True,
                blob = Some \<lparr>blobVideoChunks = 0, blobAudioChunks = 0\<rparr>, error = None\<rparr>"
proof -
  have c0: "hardwareAcceleration (encoderConfigOf config) = PreferHardware"
    by (simp add: encoderConfigOf_def)
  have c1: "fst (initializeEncoder env config s) = Normal ()
        \<and> encoder (snd (initializeEncoder env config s)) = Some Configured
        \<and> trace (snd (initializeEncoder env config s))
            = trace s @ [IsConfigSupported (encoderConfigOf config),
                         Configure (encoderConfigOf config)]"
    if "hardwareSupported env"
    using that by (simp add: initializeEncoder_def call_def Let_def)
  have c2: "fst (initializeEncoder env config s) = Normal ()
        \<and> encoder (snd (initializeEncoder env config s)) = Some Configured
        \<and> trace (snd (initializeEncoder env config s))
            = trace s @ [IsConfigSupported (encoderConfigOf config),
                         IsConfigSupported
                           ((encoderConfigOf config)\<lparr>hardwareAcceleration := PreferSoftware\<rparr>),
                         Configure
                           ((encoderConfigOf config)\<lparr>hardwareAcceleration := PreferSoftware\<rparr>)]"
    if "\<not> hardwareSupported env \<and> softwareSupported env"
    using that by (simp add: initializeEncoder_def call_def Let_def)
  have c3: "fst (initializeEncoder env config s)
          = Throws ''Video encoding not supported on this system''
        \<and> configureCalls (trace (snd (initializeEncoder env config s)))
            = configureCalls (trace s)
        \<and> (\<exists>e. fst (export env config s)
                  = Some \<lparr>success = False, blob = None, error = Some e\<rparr>)
        \<and> encodeCalls (trace (snd (export env config s))) = encodeCalls (trace s)"
    if no: "\<not> hardwareSupported env \<and> \<not> softwareSupported env"
  proof -
    let ?s1 = "(cleanup s)\<lparr>cancelled := False\<rparr>"
    from no initialize_no_encoder[of env config ?s1]
    obtain e where e: "fst (initialize env config ?s1) = Throws e" by blast
    obtain s2 where i: "initialize env config ?s1 = (Throws e, s2)"
      using e by (cases "initialize env config ?s1") simp
    have body: "exportBody env config s = (Throws e, s2)"
      by (simp add: exportBody_def Let_def andThen_def i)
    have "encodeCalls (trace s2) = encodeCalls (trace ?s1)"
      using initialize_fields(5)[of env config ?s1] i by simp
    then have enc: "encodeCalls (trace (cleanup s2)) = encodeCalls (trace s)"
      by (simp add: cleanup_calls)
    have ex: "export env config s
        = (Some \<lparr>success = False, blob = None, error = Some e\<rparr>, cleanup s2)"
      by (simp add: export_def body)
    show ?thesis
      using no ex enc by (simp add: initializeEncoder_def call_def Let_def)
  qed
  have c4: "fst (export softwareEnv (config30 None) newExporter)
       = Some \<lparr>success = True,
                blob = Some \<lparr>blobVideoChunks = 0, blobAudioChunks = 0\<rparr>, error = None\<rparr>"
    by (simp add: export_defs concrete_defs Let_def)
  from c0 c1 c2 c3 c4 show ?thesis by blast
qed

theorem initializeEncoder_probes_then_configures_witness:
  "hardwareSupported (calmEnv 2)
   \<and> (\<not> hardwareSupported softwareEnv \<and> softwareSupported softwareEnv)
   \<and> (\<not> hardwareSupported noEncoderEnv \<and> \<not> softwareSupported noEncoderEnv)
   \<and> length (configureCalls (trace (snd (initializeEncoder (calmEnv 2) (config30 None) newExporter)))) = 1
   \<and> length (configureCalls (trace (snd (initializeEncoder softwareEnv (config30 None) newExporter)))) = 1
   \<and> fst (initializeEncoder noEncoderEnv (config30 None) newExporter)
          = Throws ''Video encoding not supported on this system''
   \<and> (\<exists>e. fst (export noEncoderEnv (config30 None) newExporter)
             = Some \<lparr>success = False, blob = None, error = Some e\<rparr>)
   \<and> encodeCalls (trace (snd (export noEncoderEnv (config30 None) newExporter))) = []"
proof -
  have h1: "hardwareSupported (calmEnv 2)" by (simp add: calmEnv_def)
  have h2: "\<not> hardwareSupported softwareEnv \<and> softwareSupported softwareEnv"
    by (simp add: softwareEnv_def calmEnv_def)
  have h3: "\<not> hardwareSupported noEncoderEnv \<and> \<not> softwareSupported noEncoderEnv"
    by (simp add: noEncoderEnv_def calmEnv_def)
  note a = initializeEncoder_probes_then_configures[of "config30 None" "calmEnv 2" newExporter]
  note b = initializeEncoder_probes_then_configures[of "config30 None" softwareEnv newExporter]
  note c = initializeEncoder_probes_then_configures[of "config30 None" noEncoderEnv newExporter]
  have t: "trace newExporter = []" by (simp add: newExporter_def)
  from a h1 have a': "length (configureCalls (trace (snd (initializeEncoder (calmEnv 2) (config30 None) newExporter)))) = 1"
    by (simp add: t)
  from b h2 have b': "length (configureCalls (trace (snd (initializeEncoder softwareEnv (config30 None) newExporter)))) = 1"
    by (simp add: t)
  from c h3 have c': "fst (initializeEncoder noEncoderEnv (config30 None) newExporter)
          = Throws ''Video encoding not supported on this system''
     \<and> (\<exists>e. fst (export noEncoderEnv (config30 None) newExporter)
             = Some \<lparr>success = False, blob = None, error = Some e\<rparr>)
     \<and> encodeCalls (trace (snd (export noEncoderEnv (config30 None) newExporter))) = []"
    by (simp add: t)
  from h1 h2 h3 a' b' c' show ?thesis by blast
qed

text \<open>A video-only export that nothing disturbs resolves with success.\<close>

lemma videoOutput_ready: "videoReady s \<Longrightarrow> videoReady (videoOutput meta w s)"
  by (auto simp: videoReady_def joined_def videoOutput_def videoMuxingTask_def call_def Let_def
      split: option.splits)

lemma videoChunks_ready:
  "list_all isVideoChunk es \<Longrightarrow> videoReady s \<Longrightarrow> videoReady (applyEvents es s)"
proof (induction es arbitrary: s)
  case Nil then show ?case by simp
next
  case (Cons e es)
  then show ?case by (cases e) (simp_all add: videoOutput_ready)
qed

lemma frameStep_calm_ready:
  assumes "videoReady s" "encodeQueue s < MAX_ENCODE_QUEUE"
  shows "fst (frameStep config n calmFrame i s) = Normal ()
     \<and> videoReady (snd (frameStep config n calmFrame i s))
     \<and> encodeQueue (snd (frameStep config n calmFrame i s)) = encodeQueue s + 1"
  using assms
  by (simp add: frameStep_def calmFrame_def Let_def call_def reportProgress_def videoReady_def
        joined_def)

lemma frameLoop_calm_ready:
  "\<forall>j. frames env j = calmFrame \<Longrightarrow> videoReady s \<Longrightarrow> int i \<le> n \<Longrightarrow>
   encodeQueue s + (n - int i) \<le> MAX_ENCODE_QUEUE \<Longrightarrow>
   fst (frameLoop env config n i s) = Normal ()
     \<and> videoReady (fst (snd (frameLoop env config n i s)))"
proof (induction env config n i s rule: frameLoop.induct)
  case (1 env config n i s)
  show ?case
  proof (cases "int i < n")
    case False
    then show ?thesis using "1.prems"(2) by (simp add: frameLoop_stop)
  next
    case True
    then have room: "encodeQueue s < MAX_ENCODE_QUEUE" using "1.prems"(4) by simp
    obtain c s1 where st: "frameStep config n (frames env i) i s = (c, s1)"
      by (cases "frameStep config n (frames env i) i s")
    from frameStep_calm_ready[OF "1.prems"(2) room, of config n i] st "1.prems"(1)
    have c: "c = Normal ()" and r1: "videoReady s1" and q1: "encodeQueue s1 = encodeQueue s + 1"
      by simp_all
    have cond: "int i < n \<and> \<not> cancelled s" using True "1.prems"(2) by (simp add: videoReady_def)
    have le: "int (i + 1) \<le> n" using True by simp
    have q: "encodeQueue s1 + (n - int (i + 1)) \<le> MAX_ENCODE_QUEUE"
      using q1 "1.prems"(4) by simp
    from "1.IH"[OF cond st[symmetric] c "1.prems"(1) r1 le q]
    show ?thesis using c by (simp add: frameLoop_step[OF cond st])
  qed
qed

lemma finish_ready:
  assumes u: "undisturbed env" and r: "videoReady s"
  shows "\<exists>b. fst (finish env s) = Normal \<lparr>success = True, blob = Some b, error = None\<rparr>"
proof -
  let ?s1 = "applyEvents (flushEvents env) (call Flush s)"
  have r0: "videoReady (call Flush s)" using r by (simp add: videoReady_def call_def joined_def)
  have r1: "videoReady ?s1"
    using u r0 by (simp add: undisturbed_def videoChunks_ready)
  have f1: "flushEncoder env s = (Normal (), ?s1)"
    using u r by (simp add: flushEncoder_def undisturbed_def videoReady_def)
  have f2: "flushAudioEncoder env ?s1 = (Normal (), ?s1)"
    using r1 by (simp add: flushAudioEncoder_def videoReady_def)
  have j: "promiseAll (muxingPromises ?s1) = Normal ()"
    using r1 by (simp add: videoReady_def joined_def)
  obtain m where m: "muxer ?s1 = Some m" using r1 by (auto simp: videoReady_def)
  have "fst (finish env s) = Normal \<lparr>success = True,
          blob = Some \<lparr>blobVideoChunks = videoChunks m, blobAudioChunks = audioChunks m\<rparr>,
          error = None\<rparr>"
    using u r m
    by (simp add: finish_def andThen_def f1 f2 j finalizeMuxer_def undisturbed_def videoReady_def)
  then show ?thesis by blast
qed

lemma initializeEncoder_supported:
  assumes "hardwareSupported env \<or> softwareSupported env"
  shows "fst (initializeEncoder env config s) = Normal ()"
    and "encoder (snd (initializeEncoder env config s)) = Some Configured"
    and "renderer (snd (initializeEncoder env config s)) = renderer s"
  using assms by (auto simp: initializeEncoder_def call_def Let_def)

lemma initializeAudioEncoder_renderer:
  "renderer (initializeAudioEncoder env s) = renderer s"
  by (simp add: initializeAudioEncoder_def call_def Let_def split: option.splits)

lemma initialize_ready:
  assumes un: "\<not> audioSupported env \<or> audioTracks m = 0"
    and u: "undisturbed env" and m: "media env = Some m"
    and s: "audioEncoder s = None" "\<not> cancelled s"
  shows "fst (initialize env config s)
           = Normal \<lparr>videoWidth = mediaWidth m, videoHeight = mediaHeight m,
                     duration = mediaDuration m,
                     hasAudio = (\<not> captureStreamThrows env \<and> 0 < audioTracks m)\<rparr>"
    and "videoReady (snd (initialize env config s))"
    and "encodeQueue (snd (initialize env config s)) = 0"
proof -
  let ?h = "\<not> captureStreamThrows env \<and> 0 < audioTracks m"
  let ?d = "\<lparr>videoElement = True, audioStream = ?h\<rparr>"
  let ?info = "\<lparr>videoWidth = mediaWidth m, videoHeight = mediaHeight m,
                 duration = mediaDuration m, hasAudio = ?h\<rparr>"
  let ?s1 = "s\<lparr>decoder := Some ?d, renderer := Some ()\<rparr>"
  have lv: "loadVideo env = (Normal ?info, ?d)" using m by (simp add: loadVideo_def Let_def)
  have sup: "hardwareSupported env \<or> softwareSupported env"
    using u by (simp add: undisturbed_def)
  obtain s2 where ie: "initializeEncoder env config ?s1 = (Normal (), s2)"
    using initializeEncoder_supported(1)[OF sup, of config ?s1]
    by (cases "initializeEncoder env config ?s1") simp
  have e2: "encoder s2 = Some Configured" "renderer s2 = Some ()" "cancelled s2 = cancelled s"
    "audioEncoder s2 = None" "muxingPromises s2 = []" "encodeQueue s2 = 0"
    "decoder s2 = Some ?d"
    using initializeEncoder_supported(2,3)[OF sup, of config ?s1]
      initializeEncoder_fields(1,2,4,5,6)[of env config ?s1] ie s by simp_all
  let ?s3 = "if ?h then initializeAudioEncoder env s2 else s2"
  have e3: "encoder ?s3 = Some Configured" "renderer ?s3 = Some ()" "\<not> cancelled ?s3"
    "audioEncoder ?s3 = None" "muxingPromises ?s3 = []" "encodeQueue ?s3 = 0"
    "decoder ?s3 = Some ?d"
    using e2 s un
    by (auto simp: initializeAudioEncoder_fields initializeAudioEncoder_unsupported
          initializeAudioEncoder_renderer)
  let ?s4 = "?s3\<lparr>muxer := Some \<lparr>muxHasAudio = ?h, videoChunks = 0, audioChunks = 0\<rparr>\<rparr>"
  have i: "initialize env config s = (Normal ?info, ?s4)"
    using u e3(7)
    by (simp add: initialize_def lv ie Let_def undisturbed_def del: split_paired_All)
  show "fst (initialize env config s) = Normal ?info" by (simp add: i)
  show "videoReady (snd (initialize env config s))"
    using e3 by (simp add: i videoReady_def joined_def)
  show "encodeQueue (snd (initialize env config s)) = 0"
    using e3 by (simp add: i)
qed

lemma export_video_only:
  assumes un: "\<not> audioSupported env \<or> audioTracks m = 0" and u: "undisturbed env"
    and m: "media env = Some m"
    and n: "0 \<le> totalFramesOf config (mediaDuration m)"
           "totalFramesOf config (mediaDuration m) \<le> MAX_ENCODE_QUEUE"
  shows "\<exists>b. fst (export env config s) = Some \<lparr>success = True, blob = Some b, error = None\<rparr>"
proof -
  let ?s1 = "(cleanup s)\<lparr>cancelled := False\<rparr>"
  let ?info = "\<lparr>videoWidth = mediaWidth m, videoHeight = mediaHeight m,
                 duration = mediaDuration m,
                 hasAudio = (\<not> captureStreamThrows env \<and> 0 < audioTracks m)\<rparr>"
  have s1: "audioEncoder ?s1 = None" "\<not> cancelled ?s1" by (simp_all add: cleanup_fields)
  note ir = initialize_ready[OF un u m s1, of config]
  obtain s2 where i: "initialize env config ?s1 = (Normal ?info, s2)"
    using ir(1) by (cases "initialize env config ?s1") simp
  have r2: "videoReady s2" and q2: "encodeQueue s2 = 0" using ir(2,3) i by simp_all
  let ?n = "totalFramesOf config (mediaDuration m)"
  have calm: "\<forall>j. frames env j = calmFrame" using u by (simp add: undisturbed_def)
  from frameLoop_calm_ready[OF calm r2, of 0 ?n config] n q2
  have l: "fst (frameLoop env config ?n 0 s2) = Normal ()"
    and r4: "videoReady (fst (snd (frameLoop env config ?n 0 s2)))"
    by simp_all
  obtain s4 k where lr: "frameLoop env config ?n 0 s2 = (Normal (), s4, k)"
    using l by (cases "frameLoop env config ?n 0 s2") simp
  have r4': "videoReady s4" using r4 lr by simp
  from finish_ready[OF u r4'] obtain b
    where f: "fst (finish env s4) = Normal \<lparr>success = True, blob = Some b, error = None\<rparr>"
    by blast
  have a2: "audioEncoder s2 = None" using r2 by (simp add: videoReady_def)
  have "fst (exportBody env config s) = Normal \<lparr>success = True, blob = Some b, error = None\<rparr>"
    using f by (simp add: exportBody_def Let_def andThen_def i a2 lr)
  then have "fst (export env config s) = Some \<lparr>success = True, blob = Some b, error = None\<rparr>"
    by (cases "exportBody env config s") (simp add: export_def)
  then show ?thesis by blast
qed

text \<open>
  C7. A muxing error on a single chunk is caught and logged inside the write task of that
  chunk: the task's promise is fulfilled whether the write succeeds, rejects or finds no
  muxer, so every promise pushed to \<open>muxingPromises\<close> is fulfilled and the join before
  \<open>finalize\<close> never rejects, in whatever state the body of \<open>export\<close> ends. An otherwise
  undisturbed export of a source without audio resolves with success whatever the
  outcomes of the writes of its chunks are. In the run \<open>lossyEnv\<close> three frames are
  encoded, one video write and one audio write fail, and \<open>export\<close> still resolves with
  success and a container that lacks the two chunks.
\<close>

theorem muxing_errors_are_swallowed:
  "snd (videoMuxingTask writeFails s) = Fulfilled
   \<and> snd (audioMuxingTask writeFails s) = Fulfilled
   \<and> muxingPromises (videoOutput meta writeFails s) = muxingPromises s @ [Fulfilled]
   \<and> muxingPromises (audioOutput writeFails s) = muxingPromises s @ [Fulfilled]
   \<and> promiseAll (muxingPromises (snd (exportBody env config s))) = Normal ()
   \<and> (undisturbed env \<and> media env = Some m \<and> audioTracks m = 0
        \<and> 0 \<le> totalFramesOf config (mediaDuration m)
        \<and> totalFramesOf config (mediaDuration m) \<le> MAX_ENCODE_QUEUE \<longrightarrow>
        (\<exists>b. fst (export (env\<lparr>flushEvents := map (VideoChunk meta) outcomes\<rparr>) config s)
                = Some \<lparr>success = True, blob = Some b, error = None\<rparr>))
   \<and> fst (export lossyEnv (config30 None) newExporter)
       = Some \<lparr>success = True,
                blob = Some \<lparr>blobVideoChunks = 2, blobAudioChunks = 1\<rparr>, error = None\<rparr>
   \<and> count_list (trace (snd (export lossyEnv (config30 None) newExporter)))
        (AddVideoChunk False) = 1
   \<and> count_list (trace (snd (export lossyEnv (config30 None) newExporter)))
        (AddAudioChunk False) = 1
   \<and> length (encodeCalls (trace (snd (export lossyEnv (config30 None) newExporter)))) = 3"
proof -
  have j: "promiseAll (muxingPromises (snd (exportBody env config s))) = Normal ()"
    using exportBody_joined[of env config s] by (simp add: joined_def)
  have w: "\<exists>b. fst (export (env\<lparr>flushEvents := map (VideoChunk meta) outcomes\<rparr>) config s)
                = Some \<lparr>success = True, blob = Some b, error = None\<rparr>"
    if h: "undisturbed env \<and> media env = Some m \<and> audioTracks m = 0
        \<and> 0 \<le> totalFramesOf config (mediaDuration m)
        \<and> totalFramesOf config (mediaDuration m) \<le> MAX_ENCODE_QUEUE"
  proof -
    let ?env = "env\<lparr>flushEvents := map (VideoChunk meta) outcomes\<rparr>"
    have "list_all isVideoChunk (map (VideoChunk meta) outcomes)"
      by (induction outcomes) simp_all
    with h have u: "undisturbed ?env" by (simp add: undisturbed_def)
    have m: "media ?env = Some m" using h by simp
    from h have a: "\<not> audioSupported ?env \<or> audioTracks m = 0" by simp
    from export_video_only[OF a u m] h show ?thesis by blast
  qed
  have r: "fst (export lossyEnv (config30 None) newExporter)
       = Some \<lparr>success = True,
                blob = Some \<lparr>blobVideoChunks = 2, blobAudioChunks = 1\<rparr>, error = None\<rparr>
   \<and> count_list (trace (snd (export lossyEnv (config30 None) newExporter)))
        (AddVideoChunk False) = 1
   \<and> count_list (trace (snd (export lossyEnv (config30 None) newExporter)))
        (AddAudioChunk False) = 1
   \<and> length (encodeCalls (trace (snd (export lossyEnv (config30 None) newExporter)))) = 3"
    by (simp add: export_defs concrete_defs Let_def)
  from j w r show ?thesis
    by (simp add: muxingTasks_fulfilled videoOutput_promises audioOutput_promises)
qed

theorem muxing_errors_are_swallowed_witness:
  "undisturbed (calmEnv (1 / 10))
   \<and> media (calmEnv (1 / 10))
       = Some \<lparr>mediaWidth = 1920, mediaHeight = 1080, mediaDuration = 1 / 10,
                audioTracks = 0\<rparr>
   \<and> totalFramesOf (config30 None) (1 / 10) = 3
   \<and> (\<exists>b. fst (export ((calmEnv (1 / 10))
                \<lparr>flushEvents := map (VideoChunk plainMeta)
                                    [None, Some ''write failed'', None]\<rparr>)
              (config30 None) newExporter)
             = Some \<lparr>success = True, blob = Some b, error = None\<rparr>)"
proof -
  have h: "undisturbed (calmEnv (1 / 10))
   \<and> media (calmEnv (1 / 10))
       = Some \<lparr>mediaWidth = 1920, mediaHeight = 1080, mediaDuration = 1 / 10,
                audioTracks = 0\<rparr>"
    by (simp add: calmEnv_def undisturbed_def)
  have n: "totalFramesOf (config30 None) (1 / 10) = 3"
    by (simp add: duration_defs config30_def)
  from muxing_errors_are_swallowed
    [of None newExporter plainMeta "calmEnv (1 / 10)" "config30 None"
        "\<lparr>mediaWidth = 1920, mediaHeight = 1080, mediaDuration = 1 / 10, audioTracks = 0\<rparr>"
        "[None, Some ''write failed'', None]"]
    h n
  have "\<exists>b. fst (export ((calmEnv (1 / 10))
                \<lparr>flushEvents := map (VideoChunk plainMeta)
                                    [None, Some ''write failed'', None]\<rparr>)
              (config30 None) newExporter)
             = Some \<lparr>success = True, blob = Some b, error = None\<rparr>"
    by (simp add: MAX_ENCODE_QUEUE_def)
  with h n show ?thesis by blast
qed

lemma exportBody_no_extract:
  assumes un: "\<not> audioSupported env"
  shows "count_list (trace (snd (exportBody env config s))) ExtractAudio
           = count_list (trace s) ExtractAudio"
proof -
  let ?k = "count_list (trace s) ExtractAudio"
  let ?s1 = "(cleanup s)\<lparr>cancelled := False\<rparr>"
  have k1: "count_list (trace ?s1) ExtractAudio = ?k" by (simp add: cleanup_calls)
  have a1: "audioEncoder ?s1 = None" by (simp add: cleanup_fields)
  obtain c2 s2 where i: "initialize env config ?s1 = (c2, s2)"
    by (cases "initialize env config ?s1")
  have k2: "count_list (trace s2) ExtractAudio = ?k"
    using initialize_fields(6)[of env config ?s1] i k1 by simp
  have a2: "audioEncoder s2 = None"
    using initialize_audio_unsupported[OF un, of config ?s1] i a1 by simp
  have loop: "count_list (trace (snd (case frameLoop env config n 0 s2 of
                 (c, s4, frameIndex) \<Rightarrow> andThen (c, s4) (\<lambda>_ s5. finish env s5)))) ExtractAudio = ?k"
    for n
  proof -
    obtain c4 s4 j where r: "frameLoop env config n 0 s2 = (c4, s4, j)"
      by (cases "frameLoop env config n 0 s2")
    have k4: "count_list (trace s4) ExtractAudio = ?k"
      using frameLoop_extract[of env config n 0 s2] r k2 by simp
    have "count_list (trace (snd (andThen (c4, s4) (\<lambda>_ s5. finish env s5)))) ExtractAudio = ?k"
      by (rule andThen_snd[where P = "\<lambda>t. count_list (trace t) ExtractAudio = ?k"])
         (simp_all add: k4 finish_extract)
    then show ?thesis using r by simp
  qed
  show ?thesis
  proof (cases c2)
    case (Normal videoInfo)
    then show ?thesis
      using loop by (simp add: exportBody_def Let_def i a2 andThen_def)
  next
    case (Throws e)
    then show ?thesis using k2 by (simp add: exportBody_def Let_def i andThen_def)
  next
    case Never
    then show ?thesis using k2 by (simp add: exportBody_def Let_def i andThen_def)
  qed
qed

text \<open>
  C8. When \<open>isConfigSupported\<close> reports the Opus configuration unsupported,
  \<open>initializeAudioEncoder\<close> returns normally and leaves the exporter without an audio
  encoder and without an audio processor (the encoder object constructed before the check
  is neither configured nor stored); the export then makes no audio extraction pass. The
  export goes on with the video alone: whenever the video path is undisturbed (and short
  enough for the queue not to fill before the flush), it resolves with success. With a
  source that has an audio track on such a platform, the export encodes its three frames
  and resolves with success.
\<close>

theorem audio_unsupported_is_soft:
  "(\<not> audioSupported env \<longrightarrow>
      audioEncoder (initializeAudioEncoder env s) = audioEncoder s
      \<and> audioProcessor (initializeAudioEncoder env s) = audioProcessor s
      \<and> count_list (trace (initializeAudioEncoder env s)) AudioConfigure
          = count_list (trace s) AudioConfigure
      \<and> count_list (trace (snd (export env config s))) ExtractAudio
          = count_list (trace s) ExtractAudio)
   \<and> (\<not> audioSupported env \<and> undisturbed env \<and> media env = Some m
        \<and> 0 \<le> totalFramesOf config (mediaDuration m)
        \<and> totalFramesOf config (mediaDuration m) \<le> MAX_ENCODE_QUEUE \<longrightarrow>
        (\<exists>b. fst (export env config s)
                = Some \<lparr>success = True, blob = Some b, error = None\<rparr>))
   \<and> fst (loadVideo muteEnv)
       = Normal \<lparr>videoWidth = 1920, videoHeight = 1080, duration = 1 / 10, hasAudio = True\<rparr>
   \<and> fst (export muteEnv (config30 None) newExporter)
       = Some \<lparr>success = True,
                blob = Some \<lparr>blobVideoChunks = 0, blobAudioChunks = 0\<rparr>, error = None\<rparr>
   \<and> length (encodeCalls (trace (snd (export muteEnv (config30 None) newExporter)))) = 3
   \<and> count_list (trace (snd (export muteEnv (config30 None) newExporter)))
        AudioIsConfigSupported = 1"
proof -
  have u: "audioEncoder (initializeAudioEncoder env s) = audioEncoder s
      \<and> audioProcessor (initializeAudioEncoder env s) = audioProcessor s
      \<and> count_list (trace (initializeAudioEncoder env s)) AudioConfigure
          = count_list (trace s) AudioConfigure
      \<and> count_list (trace (snd (export env config s))) ExtractAudio
          = count_list (trace s) ExtractAudio"
    if un: "\<not> audioSupported env"
    using exportBody_no_extract[OF un, of config s]
    by (simp add: initializeAudioEncoder_unsupported[OF un] export_state cleanup_calls)
  have v: "\<exists>b. fst (export env config s)
                = Some \<lparr>success = True, blob = Some b, error = None\<rparr>"
    if "\<not> audioSupported env \<and> undisturbed env \<and> media env = Some m
        \<and> 0 \<le> totalFramesOf config (mediaDuration m)
        \<and> totalFramesOf config (mediaDuration m) \<le> MAX_ENCODE_QUEUE"
    using that export_video_only[of env m config s] by blast
  have r: "fst (loadVideo muteEnv)
       = Normal \<lparr>videoWidth = 1920, videoHeight = 1080, duration = 1 / 10, hasAudio = True\<rparr>
   \<and> fst (export muteEnv (config30 None) newExporter)
       = Some \<lparr>success = True,
                blob = Some \<lparr>blobVideoChunks = 0, blobAudioChunks = 0\<rparr>, error = None\<rparr>
   \<and> length (encodeCalls (trace (snd (export muteEnv (config30 None) newExporter)))) = 3
   \<and> count_list (trace (snd (export muteEnv (config30 None) newExporter)))
        AudioIsConfigSupported = 1"
    by (simp add: export_defs concrete_defs Let_def)
  from u v r show ?thesis by blast
qed

theorem audio_unsupported_is_soft_witness:
  "\<not> audioSupported muteEnv \<and> undisturbed muteEnv
   \<and> media muteEnv = Some \<lparr>mediaWidth = 1920, mediaHeight = 1080, mediaDuration = 1 / 10,
                             audioTracks = 1\<rparr>
   \<and> totalFramesOf (config30 None) (1 / 10) = 3
   \<and> audioEncoder (initializeAudioEncoder muteEnv newExporter) = None
   \<and> count_list (trace (snd (export muteEnv (config30 None) newExporter))) ExtractAudio = 0
   \<and> (\<exists>b. fst (export muteEnv (config30 None) newExporter)
             = Some \<lparr>success = True, blob = Some b, error = None\<rparr>)"
proof -
  have h: "\<not> audioSupported muteEnv \<and> undisturbed muteEnv
     \<and> media muteEnv = Some \<lparr>mediaWidth = 1920, mediaHeight = 1080, mediaDuration = 1 / 10,
                             audioTracks = 1\<rparr>"
    by (simp add: muteEnv_def calmEnv_def undisturbed_def)
  have n: "totalFramesOf (config30 None) (1 / 10) = 3"
    by (simp add: duration_defs config30_def)
  from audio_unsupported_is_soft
    [of muteEnv newExporter "config30 None"
        "\<lparr>mediaWidth = 1920, mediaHeight = 1080, mediaDuration = 1 / 10, audioTracks = 1\<rparr>"]
    h n
  have "audioEncoder (initializeAudioEncoder muteEnv newExporter) = None
   \<and> count_list (trace (snd (export muteEnv (config30 None) newExporter))) ExtractAudio = 0
   \<and> (\<exists>b. fst (export muteEnv (config30 None) newExporter)
             = Some \<lparr>success = True, blob = Some b, error = None\<rparr>)"
    by (simp add: newExporter_def MAX_ENCODE_QUEUE_def)
  with h n show ?thesis by blast
qed

text \<open>
  C6. The bound is 120. The counter \<open>encodeQueue\<close> and the highest value it has had after
  an increment never exceed the bound: the invariant \<open>queueBounded\<close> is kept by the frame
  loop from any state, and holds at the end of every export that starts with a peak within
  the bound. The output callback decrements the counter by one; a frame step that submits
  a frame increments it by one together with its one \<open>encode\<close> call; and when the
  back-pressure wait lets the loop go on, the counter is below the bound or the export has
  been cancelled (and then nothing is submitted, as the encoder is no longer configured).
\<close>

theorem encodeQueue_never_exceeds_bound:
  "MAX_ENCODE_QUEUE = 120
   \<and> (queueBounded s \<longrightarrow> queueBounded (fst (snd (frameLoop env config n i s))))
   \<and> (queuePeak s \<le> MAX_ENCODE_QUEUE \<longrightarrow> queueBounded (snd (export env config s)))
   \<and> encodeQueue (videoOutput meta writeFails s) = encodeQueue s - 1
   \<and> (fst (waitForQueue ticks s) = Normal () \<longrightarrow>
        encodeQueue (snd (waitForQueue ticks s)) < MAX_ENCODE_QUEUE
        \<or> cancelled (snd (waitForQueue ticks s)))
   \<and> (renderer s \<noteq> None \<and> encoder s = Some Configured \<and> \<not> cancelled s
        \<and> encodeQueue s < MAX_ENCODE_QUEUE \<longrightarrow>
        encodeQueue (snd (frameStep config n calmFrame i s)) = encodeQueue s + 1
        \<and> length (encodeCalls (trace (snd (frameStep config n calmFrame i s))))
            = Suc (length (encodeCalls (trace s))))"
proof -
  have c2: "queueBounded (snd (export env config s))" if p: "queuePeak s \<le> MAX_ENCODE_QUEUE"
  proof -
    let ?t = "snd (exportBody env config s)"
    have b: "queueBounded ?t" using p by (rule exportBody_bounded)
    then have "queueBounded (cleanup ?t)"
      by (simp add: queueBounded_def cleanup_fields MAX_ENCODE_QUEUE_def)
    with b show ?thesis by (simp add: export_state)
  qed
  have c4: "encodeQueue (snd (waitForQueue ticks s)) < MAX_ENCODE_QUEUE
        \<or> cancelled (snd (waitForQueue ticks s))"
    if "fst (waitForQueue ticks s) = Normal ()"
    using that waitForQueue_free[of ticks s "()" "snd (waitForQueue ticks s)"]
    by (cases "waitForQueue ticks s") simp
  have c5: "encodeQueue (snd (frameStep config n calmFrame i s)) = encodeQueue s + 1
        \<and> length (encodeCalls (trace (snd (frameStep config n calmFrame i s))))
            = Suc (length (encodeCalls (trace s)))"
    if "renderer s \<noteq> None \<and> encoder s = Some Configured \<and> \<not> cancelled s
        \<and> encodeQueue s < MAX_ENCODE_QUEUE"
    using that frameStep_calm[of s config n i] by auto
  show ?thesis
    using c2 c4 c5 frameLoop_bounded[of s env config n i]
    by (simp add: videoOutput_fields) (simp add: MAX_ENCODE_QUEUE_def)
qed

theorem encodeQueue_never_exceeds_bound_witness:
  "queueBounded (busyExporter 119)
   \<and> queueBounded (fst (snd (frameLoop slowEnv (config30 None) 2 0 (busyExporter 119))))
   \<and> queuePeak (fst (snd (frameLoop slowEnv (config30 None) 2 0 (busyExporter 119)))) = 120
   \<and> queuePeak newExporter \<le> MAX_ENCODE_QUEUE
   \<and> queueBounded (snd (export slowEnv (config30 None) newExporter))
   \<and> fst (waitForQueue [[], [VideoChunk plainMeta None]] (busyExporter 120)) = Normal ()
   \<and> encodeQueue (snd (waitForQueue [[], [VideoChunk plainMeta None]] (busyExporter 120))) = 119
   \<and> (renderer (busyExporter 119) \<noteq> None \<and> encoder (busyExporter 119) = Some Configured
        \<and> \<not> cancelled (busyExporter 119) \<and> encodeQueue (busyExporter 119) < MAX_ENCODE_QUEUE)
   \<and> encodeQueue (snd (frameStep (config30 None) 2 calmFrame 0 (busyExporter 119))) = 120"
proof -
  have h1: "queueBounded (busyExporter 119)"
    by (simp add: queueBounded_def busyExporter_def newExporter_def MAX_ENCODE_QUEUE_def)
  have h2: "queuePeak newExporter \<le> MAX_ENCODE_QUEUE"
    by (simp add: newExporter_def MAX_ENCODE_QUEUE_def)
  have h3: "fst (waitForQueue [[], [VideoChunk plainMeta None]] (busyExporter 120)) = Normal ()
     \<and> encodeQueue (snd (waitForQueue [[], [VideoChunk plainMeta None]] (busyExporter 120))) = 119"
    by (simp add: export_defs concrete_defs Let_def)
  have h4: "renderer (busyExporter 119) \<noteq> None \<and> encoder (busyExporter 119) = Some Configured
        \<and> \<not> cancelled (busyExporter 119) \<and> encodeQueue (busyExporter 119) < MAX_ENCODE_QUEUE"
    by (simp add: busyExporter_def newExporter_def MAX_ENCODE_QUEUE_def)
  have p: "queuePeak (fst (snd (frameLoop slowEnv (config30 None) 2 0 (busyExporter 119)))) = 120"
    by (simp add: export_defs concrete_defs Let_def)
  note a = encodeQueue_never_exceeds_bound
    [of "busyExporter 119" slowEnv "config30 None" 2 0 plainMeta None "[]"]
  note b = encodeQueue_never_exceeds_bound
    [of newExporter slowEnv "config30 None" 2 0 plainMeta None "[]"]
  from a h1 h4 have a': "queueBounded (fst (snd (frameLoop slowEnv (config30 None) 2 0 (busyExporter 119))))
     \<and> encodeQueue (snd (frameStep (config30 None) 2 calmFrame 0 (busyExporter 119))) = 120"
    by (simp add: busyExporter_def newExporter_def)
  from b h2 have b': "queueBounded (snd (export slowEnv (config30 None) newExporter))"
    by simp
  from h1 h2 h3 h4 p a' b' show ?thesis by blast
qed

lemma frameStep_last:
  "fst (frameStep config n fe i s) = Normal () \<Longrightarrow> onProgress config \<Longrightarrow>
     last (trace (snd (frameStep config n fe i s))) = OnProgress (progressAt n (Suc i))"
  by (auto simp: frameStep_def Let_def reportProgress_def call_def
      split: option.splits if_splits prod.splits Completion.splits)

lemma frameStep_skip:
  assumes "renderer s \<noteq> None" "encoder s \<noteq> Some Configured"
    "encodeQueue s < MAX_ENCODE_QUEUE"
  shows "fst (frameStep config n calmFrame i s) = Normal ()
     \<and> encodeCalls (trace (snd (frameStep config n calmFrame i s))) = encodeCalls (trace s)"
  using assms
  by (simp add: frameStep_def calmFrame_def Let_def call_def reportProgress_def)

text \<open>
  C9. An iteration of the frame loop for frame \<open>i\<close> that runs to its end reports progress
  exactly once, as its last call, when a callback is configured: \<open>currentFrame = i + 1\<close>,
  the fixed \<open>totalFrames\<close>, \<open>percentage = (i + 1) / totalFrames * 100\<close> and
  \<open>estimatedTimeRemaining = 0\<close>. Over the whole loop the reports are those of the frames
  \<open>1 .. k\<close>, where \<open>k\<close> is the number of iterations that ran to their end. This does not
  depend on the encoder: when it is not in the state \<open>configured\<close> the frame is skipped,
  nothing is encoded, and the report is made all the same.
\<close>

theorem progress_after_every_frame:
  "(fst (frameStep config n fe i s) = Normal () \<longrightarrow>
      progressCalls (trace (snd (frameStep config n fe i s)))
        = progressCalls (trace s)
          @ (if onProgress config
             then [\<lparr>currentFrame = i + 1, totalFrames = n,
                    percentage = real (i + 1) / real_of_int n * 100,
                    estimatedTimeRemaining = 0\<rparr>]
             else [])
      \<and> (onProgress config \<longrightarrow>
           last (trace (snd (frameStep config n fe i s)))
             = OnProgress \<lparr>currentFrame = i + 1, totalFrames = n,
                    percentage = real (i + 1) / real_of_int n * 100,
                    estimatedTimeRemaining = 0\<rparr>))
   \<and> progressCalls (trace (fst (snd (frameLoop env config n 0 s))))
        = progressCalls (trace s)
          @ (if onProgress config
             then map (progressAt n) [1 ..< Suc (snd (snd (frameLoop env config n 0 s)))]
             else [])
   \<and> (renderer s \<noteq> None \<and> encoder s \<noteq> Some Configured
        \<and> encodeQueue s < MAX_ENCODE_QUEUE \<longrightarrow>
        fst (frameStep config n calmFrame i s) = Normal ()
        \<and> encodeCalls (trace (snd (frameStep config n calmFrame i s))) = encodeCalls (trace s)
        \<and> progressCalls (trace (snd (frameStep config n calmFrame i s)))
            = progressCalls (trace s)
              @ (if onProgress config then [progressAt n (i + 1)] else []))"
proof -
  have step: "progressCalls (trace (snd (frameStep config n fe i s)))
        = progressCalls (trace s) @ (if onProgress config then [progressAt n (Suc i)] else [])"
    if "fst (frameStep config n fe i s) = Normal ()" for fe
    using that frameStep_calls[of config n fe i s "Normal ()" "snd (frameStep config n fe i s)"]
    by (cases "frameStep config n fe i s") simp
  have loop: "progressCalls (trace (fst (snd (frameLoop env config n 0 s))))
        = progressCalls (trace s)
          @ (if onProgress config
             then map (progressAt n) [1 ..< Suc (snd (snd (frameLoop env config n 0 s)))]
             else [])"
    using frameLoop_progress[of env config n 0 s "fst (frameLoop env config n 0 s)"
        "fst (snd (frameLoop env config n 0 s))" "snd (snd (frameLoop env config n 0 s))"]
    by simp
  have skip: "fst (frameStep config n calmFrame i s) = Normal ()
        \<and> encodeCalls (trace (snd (frameStep config n calmFrame i s))) = encodeCalls (trace s)
        \<and> progressCalls (trace (snd (frameStep config n calmFrame i s)))
            = progressCalls (trace s)
              @ (if onProgress config then [progressAt n (i + 1)] else [])"
    if "renderer s \<noteq> None \<and> encoder s \<noteq> Some Configured \<and> encodeQueue s < MAX_ENCODE_QUEUE"
    using that frameStep_skip[of s config n i] step[of calmFrame] by simp
  show ?thesis
    using step[of fe] frameStep_last[of config n fe i s] loop skip
    by (simp add: progressAt_def)
qed

theorem progress_after_every_frame_witness:
  "renderer ((busyExporter 0)\<lparr>encoder := Some Closed\<rparr>) \<noteq> None
   \<and> encoder ((busyExporter 0)\<lparr>encoder := Some Closed\<rparr>) \<noteq> Some Configured
   \<and> encodeQueue ((busyExporter 0)\<lparr>encoder := Some Closed\<rparr>) < MAX_ENCODE_QUEUE
   \<and> onProgress (config30 None)
   \<and> fst (frameStep (config30 None) 3 calmFrame 0 ((busyExporter 0)\<lparr>encoder := Some Closed\<rparr>))
       = Normal ()
   \<and> encodeCalls (trace (snd (frameStep (config30 None) 3 calmFrame 0
                                 ((busyExporter 0)\<lparr>encoder := Some Closed\<rparr>)))) = []
   \<and> progressCalls (trace (snd (frameStep (config30 None) 3 calmFrame 0
                                 ((busyExporter 0)\<lparr>encoder := Some Closed\<rparr>))))
       = [\<lparr>currentFrame = 1, totalFrames = 3, percentage = 100 / 3,
           estimatedTimeRemaining = 0\<rparr>]
   \<and> last (trace (snd (frameStep (config30 None) 3 calmFrame 0
                                 ((busyExporter 0)\<lparr>encoder := Some Closed\<rparr>))))
       = OnProgress \<lparr>currentFrame = 1, totalFrames = 3, percentage = 100 / 3,
           estimatedTimeRemaining = 0\<rparr>"
proof -
  let ?s = "(busyExporter 0)\<lparr>encoder := Some Closed\<rparr>"
  have h: "renderer ?s \<noteq> None \<and> encoder ?s \<noteq> Some Configured
      \<and> encodeQueue ?s < MAX_ENCODE_QUEUE \<and> onProgress (config30 None)"
    by (simp add: busyExporter_def newExporter_def MAX_ENCODE_QUEUE_def config30_def)
  have t: "trace ?s = []" by (simp add: busyExporter_def newExporter_def)
  from progress_after_every_frame[of "config30 None" 3 calmFrame 0 ?s "calmEnv 1"] h
  show ?thesis by (simp add: t progressAt_def)
qed



end
